theory Spec2Isabelle
  imports Complex_Main "HOL-Library.AList"
begin

section \<open>Terrain data extractor: a model of \<^verbatim>\<open>app.py\<close>\<close>

text \<open>
  The program is a five-stage pipeline over files in one scratch directory:
  \<^verbatim>\<open>clip_raster\<close>, \<^verbatim>\<open>transform_to_feet\<close>, \<^verbatim>\<open>generate_contours\<close>,
  \<^verbatim>\<open>convert_shapefile_to_dxf\<close> and \<^verbatim>\<open>raster_to_points\<close>, sequenced by \<^verbatim>\<open>upload\<close>.

  Modelling decisions:
  \<^item> A file's bytes are represented by the decoded content they stand for (a raster
    dataset, a vector layer, a point table, or opaque bytes).
  \<^item> A cell value or a nodata value is a Python float: a real number or NaN. The
    arithmetic on numbers is modelled exactly; floating-point rounding and the infinities
    are not modelled. Geotransform coefficients are real numbers.
  \<^item> The scratch directory \<^verbatim>\<open>terrain_processing_temp\<close> is the only part of the file
    system that is modelled; paths are names inside it, and the uploaded file names are
    taken to be plain names.
  \<^item> A Python exception is an \<open>error\<close> value; the directory state at the moment of the
    raise is kept, since nothing in the program catches an exception.
  \<^item> The command line tools \<^verbatim>\<open>gdalwarp\<close> and \<^verbatim>\<open>ogr2ogr\<close> and the primitive
    \<^verbatim>\<open>gdal.ContourGenerate\<close> are parameters of the model (record \<open>extern\<close>); both
    executables are taken to be installed. Logging is not modelled.
\<close>

subsection \<open>Exceptions\<close>

datatype error =
    FileNotFoundError
  | IsADirectoryError
  | OSError
  | AttributeError
  | TypeError
  | ValueError

subsection \<open>Rasters\<close>

datatype GDALDataType =
    GDT_Byte | GDT_UInt16 | GDT_Int16 | GDT_UInt32 | GDT_Int32 | GDT_Float32 | GDT_Float64

text \<open>
  A Python float: a number or NaN. \<^verbatim>\<open>a == b\<close> is false as soon as one side is NaN, and
  \<^verbatim>\<open>a != b\<close> is its negation; a product with NaN is NaN, and so is a minimum or maximum
  over an array that holds NaN.
\<close>

datatype pyfloat = Num real | NaN

fun py_eq :: "pyfloat \<Rightarrow> pyfloat \<Rightarrow> bool" where
  "py_eq (Num x) (Num y) = (x = y)"
| "py_eq _ _ = False"

fun py_mul :: "pyfloat \<Rightarrow> real \<Rightarrow> pyfloat" where
  "py_mul (Num x) k = Num (x * k)"
| "py_mul NaN k = NaN"

fun py_min :: "pyfloat \<Rightarrow> pyfloat \<Rightarrow> pyfloat" where
  "py_min (Num x) (Num y) = Num (min x y)"
| "py_min _ _ = NaN"

fun py_max :: "pyfloat \<Rightarrow> pyfloat \<Rightarrow> pyfloat" where
  "py_max (Num x) (Num y) = Num (max x y)"
| "py_max _ _ = NaN"

text \<open>A numpy 2D array: a list of rows.\<close>

type_synonym array2d = "pyfloat list list"

record geotransform =
  gt0 :: real
  gt1 :: real
  gt2 :: real
  gt3 :: real
  gt4 :: real
  gt5 :: real

record band =
  DataType :: GDALDataType
  band_array :: array2d
  NoDataValue :: "pyfloat option"

record dataset =
  RasterXSize :: nat
  RasterYSize :: nat
  GeoTransform :: geotransform
  Projection :: string
  bands :: "band list"

text \<open>
  What GDAL guarantees of a dataset it has opened: both sizes are positive and every band
  holds \<open>RasterYSize\<close> rows of \<open>RasterXSize\<close> cells.
\<close>

definition wf_band :: "nat \<Rightarrow> nat \<Rightarrow> band \<Rightarrow> bool" where
  "wf_band w h b \<longleftrightarrow>
     length (band_array b) = h \<and> list_all (\<lambda>row. length row = w) (band_array b)"

definition wf_dataset :: "dataset \<Rightarrow> bool" where
  "wf_dataset ds \<longleftrightarrow>
     0 < RasterXSize ds \<and> 0 < RasterYSize ds \<and>
     list_all (wf_band (RasterXSize ds) (RasterYSize ds)) (bands ds)"

subsection \<open>Vector layers\<close>

datatype OGRwkbGeometryType = wkbUnknown | wkbLineString | wkbLineString25D

datatype OGRFieldType = OFTInteger | OFTReal | OFTString

datatype field_value = IntegerValue int | RealValue real

record feature =
  attributes :: "field_value list"
  geometry :: "(real \<times> real \<times> real) list"

record layer =
  layer_name :: string
  srs :: string
  geom_type :: OGRwkbGeometryType
  field_defns :: "(string \<times> OGRFieldType) list"
  features :: "feature list"

subsection \<open>Files and the scratch directory\<close>

datatype content =
    Raster dataset
  | Shapefile layer
  | Sidecar
  | DXF layer
  | CSV string "(real \<times> real \<times> pyfloat) list"
  | Blob string

datatype entry = File content | Dir

type_synonym directory = "(string \<times> entry) list"

datatype scratch = Absent | Present directory

text \<open>A computation that may raise, over the state of the scratch directory.\<close>

type_synonym 'a io = "scratch \<Rightarrow> (error + 'a) \<times> scratch"

definition io_return :: "'a \<Rightarrow> 'a io" where
  "io_return a s = (Inr a, s)"

definition io_raise :: "error \<Rightarrow> 'a io" where
  "io_raise e s = (Inl e, s)"

definition io_bind :: "'a io \<Rightarrow> ('a \<Rightarrow> 'b io) \<Rightarrow> 'b io" where
  "io_bind m f s = (case m s of (Inl e, s') \<Rightarrow> (Inl e, s') | (Inr a, s') \<Rightarrow> f a s')"

text \<open>\<^verbatim>\<open>with open(path, 'wb') as f: f.write(data)\<close>, and \<^verbatim>\<open>FileStorage.save\<close>.\<close>

definition open_write :: "string \<Rightarrow> content \<Rightarrow> unit io" where
  "open_write p c s =
     (case s of
        Absent \<Rightarrow> (Inl FileNotFoundError, s)
      | Present d \<Rightarrow>
          (case map_of d p of
             Some Dir \<Rightarrow> (Inl IsADirectoryError, s)
           | _ \<Rightarrow> (Inr (), Present (AList.update p (File c) d))))"

text \<open>\<^verbatim>\<open>with open(path, 'rb') as f: data = f.read()\<close>\<close>

definition open_read :: "string \<Rightarrow> content io" where
  "open_read p s =
     (case s of
        Absent \<Rightarrow> (Inl FileNotFoundError, s)
      | Present d \<Rightarrow>
          (case map_of d p of
             None \<Rightarrow> (Inl FileNotFoundError, s)
           | Some Dir \<Rightarrow> (Inl IsADirectoryError, s)
           | Some (File c) \<Rightarrow> (Inr c, s)))"

text \<open>
  A file written by an external tool or by a GDAL driver: nothing is raised in Python;
  the file appears when the directory exists and the name is not a subdirectory.
\<close>

definition tool_write :: "string \<Rightarrow> content \<Rightarrow> scratch \<Rightarrow> scratch" where
  "tool_write p c s =
     (case s of
        Absent \<Rightarrow> s
      | Present d \<Rightarrow>
          (case map_of d p of
             Some Dir \<Rightarrow> s
           | _ \<Rightarrow> Present (AList.update p (File c) d)))"

text \<open>What a tool finds at a path: the content of a regular file, or nothing.\<close>

definition file_at :: "scratch \<Rightarrow> string \<Rightarrow> content option" where
  "file_at s p =
     (case s of
        Absent \<Rightarrow> None
      | Present d \<Rightarrow> (case map_of d p of Some (File c) \<Rightarrow> Some c | _ \<Rightarrow> None))"

text \<open>
  A child process started with \<^verbatim>\<open>subprocess.run\<close> and no \<^verbatim>\<open>check=True\<close>: its exit
  status is dropped and nothing is raised. \<open>tool s\<close> is what the tool leaves at \<open>dst\<close>
  (\<open>None\<close>: it wrote nothing, and whatever was at \<open>dst\<close> stays).
\<close>

definition subprocess_run :: "string \<Rightarrow> (scratch \<Rightarrow> content option) \<Rightarrow> unit io" where
  "subprocess_run dst tool s =
     (Inr (), (case tool s of None \<Rightarrow> s | Some c \<Rightarrow> tool_write dst c s))"

text \<open>A GDAL or OGR driver writing the file behind an open dataset.\<close>

definition driver_write :: "string \<Rightarrow> content \<Rightarrow> unit io" where
  "driver_write p c s = (Inr (), tool_write p c s)"

text \<open>
  A dataset that is local to a function is closed, and its file written, also when the
  function is left by an exception: \<open>on_raise close m\<close> applies \<open>close\<close> to the directory
  when \<open>m\<close> raises.
\<close>

definition on_raise :: "(scratch \<Rightarrow> scratch) \<Rightarrow> 'a io \<Rightarrow> 'a io" where
  "on_raise close m s =
     (case m s of (Inl e, s') \<Rightarrow> (Inl e, close s') | (Inr a, s') \<Rightarrow> (Inr a, s'))"

text \<open>
  \<^verbatim>\<open>gdal.Open(path, gdal.GA_Update)\<close> returns \<^verbatim>\<open>None\<close> when the file is missing or is
  not a raster.
\<close>

definition gdal_Open :: "string \<Rightarrow> dataset option io" where
  "gdal_Open p s =
     (Inr (case file_at s p of Some (Raster ds) \<Rightarrow> Some ds | _ \<Rightarrow> None), s)"

text \<open>\<^verbatim>\<open>ds.GetRasterBand(n)\<close>: \<^verbatim>\<open>None\<close> when the dataset has no band \<open>n\<close>.\<close>

definition GetRasterBand :: "dataset \<Rightarrow> nat \<Rightarrow> band option" where
  "GetRasterBand ds n =
     (if 1 \<le> n \<and> n \<le> length (bands ds) then Some (bands ds ! (n - 1)) else None)"

text \<open>
  A method call on an object returned by GDAL: an \<^verbatim>\<open>AttributeError\<close> when the object
  is \<^verbatim>\<open>None\<close>.
\<close>

definition deref :: "'a option \<Rightarrow> 'a io" where
  "deref obj = (case obj of None \<Rightarrow> io_raise AttributeError | Some x \<Rightarrow> io_return x)"

subsection \<open>\<^verbatim>\<open>create_temp_dir\<close>\<close>

text \<open>\<^verbatim>\<open>os.makedirs(temp_dir, exist_ok=True)\<close>\<close>

definition create_temp_dir :: "unit io" where
  "create_temp_dir s = (Inr (), (case s of Absent \<Rightarrow> Present [] | Present d \<Rightarrow> Present d))"

subsection \<open>The external collaborators\<close>

text \<open>The arguments of \<^verbatim>\<open>gdal.ContourGenerate\<close>, in the order of the call.\<close>

record contour_call =
  srcBand :: band
  contourInterval :: real
  contourBase :: real
  fixedLevels :: "real list"
  useNoData :: int
  noDataValue :: pyfloat
  dstLayer :: layer
  idField :: int
  elevField :: int

text \<open>
  \<^item> \<open>gdalwarp src cutline dst\<close>: what \<^verbatim>\<open>gdalwarp -cutline kml -crop_to_cutline dem out\<close>
    leaves at \<^verbatim>\<open>out\<close>, given the files at the three paths;
  \<^item> \<open>ContourGenerate call\<close>: the features the primitive adds to the destination layer;
  \<^item> \<open>ogr2ogr format zfield src dst\<close>: what \<^verbatim>\<open>ogr2ogr -f format -zfield zfield out in\<close>
    leaves at \<^verbatim>\<open>out\<close>.
\<close>

record extern =
  gdalwarp :: "content option \<Rightarrow> content option \<Rightarrow> content option \<Rightarrow> content option"
  ContourGenerate :: "contour_call \<Rightarrow> feature list"
  ogr2ogr :: "string \<Rightarrow> string \<Rightarrow> content option \<Rightarrow> content option \<Rightarrow> content option"

subsection \<open>\<^verbatim>\<open>clip_raster\<close>\<close>

definition tmp_clip :: string where
  "tmp_clip = ''tmp_clip.tif''"

definition clip_raster :: "extern \<Rightarrow> string \<Rightarrow> string \<Rightarrow> content io" where
  "clip_raster ext dem_path kml_path =
     io_bind create_temp_dir (\<lambda>_.
     io_bind (subprocess_run tmp_clip
                (\<lambda>s. gdalwarp ext (file_at s dem_path) (file_at s kml_path) (file_at s tmp_clip)))
       (\<lambda>_.
     open_read tmp_clip))"

subsection \<open>Masked arrays\<close>

text \<open>A numpy masked array: each cell carries its data and its mask bit.\<close>

type_synonym masked_array = "(pyfloat \<times> bool) list list"

text \<open>
  \<^verbatim>\<open>np.ma.masked_equal(a, v)\<close> masks the cells equal to \<open>v\<close>; compared with \<^verbatim>\<open>None\<close>
  no cell is equal.
\<close>

definition masked_equal :: "array2d \<Rightarrow> pyfloat option \<Rightarrow> masked_array" where
  "masked_equal a v =
     map (map (\<lambda>x. (x, (case v of None \<Rightarrow> False | Some nd \<Rightarrow> py_eq x nd)))) a"

definition unmasked :: "masked_array \<Rightarrow> pyfloat list" where
  "unmasked m = map fst (filter (\<lambda>c. \<not> snd c) (concat m))"

text \<open>
  \<^verbatim>\<open>m.min()\<close> and \<^verbatim>\<open>m.max()\<close>: a \<^verbatim>\<open>ValueError\<close> on an array with no cell, the
  \<^verbatim>\<open>masked\<close> constant (here \<open>None\<close>) when every cell is masked. The results are only
  logged.
\<close>

definition ma_min :: "masked_array \<Rightarrow> pyfloat option io" where
  "ma_min m =
     (if concat m = [] then io_raise ValueError
      else io_return (case unmasked m of [] \<Rightarrow> None | x # xs \<Rightarrow> Some (fold py_min xs x)))"

definition ma_max :: "masked_array \<Rightarrow> pyfloat option io" where
  "ma_max m =
     (if concat m = [] then io_raise ValueError
      else io_return (case unmasked m of [] \<Rightarrow> None | x # xs \<Rightarrow> Some (fold py_max xs x)))"

text \<open>\<^verbatim>\<open>m * k\<close>: the data of a masked cell is kept as it is.\<close>

definition ma_mul :: "masked_array \<Rightarrow> real \<Rightarrow> masked_array" where
  "ma_mul m k = map (map (\<lambda>(x, msk). (if msk then x else py_mul x k, msk))) m"

text \<open>
  \<^verbatim>\<open>m.filled(v)\<close>: masked cells become \<open>v\<close>; with \<^verbatim>\<open>None\<close>, the array's own fill value,
  which \<^verbatim>\<open>masked_equal\<close> left at numpy's default for floats.
\<close>

definition default_fill_value :: pyfloat where
  "default_fill_value = Num (10 ^ 20)"

definition filled :: "masked_array \<Rightarrow> pyfloat option \<Rightarrow> array2d" where
  "filled m v =
     map (map (\<lambda>(x, msk).
       if msk then (case v of None \<Rightarrow> default_fill_value | Some fv \<Rightarrow> fv) else x)) m"

subsection \<open>\<^verbatim>\<open>transform_to_feet\<close>\<close>

definition tmp_feet :: string where
  "tmp_feet = ''tmp_feet.tif''"

text \<open>
  \<^verbatim>\<open>driver.Create(path, xsize, ysize, 1, gdal.GDT_Float32)\<close>: a new file holding a dataset
  with zero-filled bands, the identity geotransform, no projection and no nodata value;
  \<^verbatim>\<open>None\<close>, and no file, when a size is zero.
\<close>

definition default_geotransform :: geotransform where
  "default_geotransform =
     \<lparr>gt0 = 0, gt1 = 1, gt2 = 0, gt3 = 0, gt4 = 0, gt5 = 1\<rparr>"

definition driver_Create ::
  "string \<Rightarrow> nat \<Rightarrow> nat \<Rightarrow> nat \<Rightarrow> GDALDataType \<Rightarrow> dataset option io" where
  "driver_Create p xsize ysize nbands t =
     (if xsize = 0 \<or> ysize = 0 then io_return None
      else
        (let ds = \<lparr>RasterXSize = xsize, RasterYSize = ysize,
                   GeoTransform = default_geotransform, Projection = [],
                   bands = replicate nbands
                     \<lparr>DataType = t,
                      band_array = replicate ysize (replicate xsize (Num 0)),
                      NoDataValue = None\<rparr>\<rparr>
         in io_bind (driver_write p (Raster ds)) (\<lambda>_. io_return (Some ds))))"

text \<open>
  \<^verbatim>\<open>out_band.SetNoDataValue(v)\<close>: the binding takes a number; \<^verbatim>\<open>None\<close> is a
  \<^verbatim>\<open>TypeError\<close>.
\<close>

definition SetNoDataValue :: "pyfloat option \<Rightarrow> band \<Rightarrow> band io" where
  "SetNoDataValue v b =
     (case v of None \<Rightarrow> io_raise TypeError
              | Some x \<Rightarrow> io_return (b\<lparr>NoDataValue := Some x\<rparr>))"

text \<open>
  Lines 25 to 61. The output dataset is local to the function: its file holds the dataset
  as it stands when it is closed, also when the function is left by an exception.
\<close>

definition transform_to_feet :: "content \<Rightarrow> content io" where
  "transform_to_feet clipped_dem_data =
     io_bind (open_write tmp_clip clipped_dem_data) (\<lambda>_.
     io_bind (gdal_Open tmp_clip) (\<lambda>input_ds_opt.
     io_bind (deref input_ds_opt) (\<lambda>input_ds.
     io_bind (deref (GetRasterBand input_ds 1)) (\<lambda>dem_band.
     (let dem_array = band_array dem_band;
          nodata_value = NoDataValue dem_band;
          dem_masked = masked_equal dem_array nodata_value
      in
     io_bind (ma_min dem_masked) (\<lambda>_.
     io_bind (ma_max dem_masked) (\<lambda>_.
     (let dem_array_feet = ma_mul dem_masked 3.28084
      in
     io_bind (ma_min dem_array_feet) (\<lambda>_.
     io_bind (ma_max dem_array_feet) (\<lambda>_.
     (let dem_array_filled = filled dem_array_feet nodata_value
      in
     io_bind (driver_Create tmp_feet (RasterXSize input_ds) (RasterYSize input_ds) 1 GDT_Float32)
       (\<lambda>out_ds_opt.
     io_bind (deref out_ds_opt) (\<lambda>created.
     (let out_ds = created\<lparr>GeoTransform := GeoTransform input_ds,
                           Projection := Projection input_ds\<rparr>
      in
     io_bind (deref (GetRasterBand out_ds 1)) (\<lambda>out_band.
     (let written = out_band\<lparr>band_array := dem_array_filled\<rparr>
      in
     io_bind (on_raise (tool_write tmp_feet (Raster (out_ds\<lparr>bands := [written]\<rparr>)))
                (SetNoDataValue nodata_value written))
       (\<lambda>stamped.
     io_bind (driver_write tmp_feet (Raster (out_ds\<lparr>bands := [stamped]\<rparr>))) (\<lambda>_.
     open_read tmp_feet))))))))))))))))))"

subsection \<open>\<^verbatim>\<open>generate_contours\<close>\<close>

definition tmp_contours_shp :: string where
  "tmp_contours_shp = ''tmp_contours.shp''"

definition tmp_contours_shx :: string where
  "tmp_contours_shx = ''tmp_contours.shx''"

definition tmp_contours_dbf :: string where
  "tmp_contours_dbf = ''tmp_contours.dbf''"

definition tmp_contours_prj :: string where
  "tmp_contours_prj = ''tmp_contours.prj''"

text \<open>
  \<^verbatim>\<open>ogr.GetDriverByName("ESRI Shapefile").CreateDataSource(path)\<close>: when nothing is at
  \<open>path\<close>, a data source for a new set of files named after \<open>path\<close>; when \<open>path\<close> is a
  directory, a data source that keeps its layers inside that directory; when \<open>path\<close> is
  a regular file that exists already, the driver refuses and the result is \<^verbatim>\<open>None\<close>.
\<close>

datatype datasource = NewFileSet | InDirectory

definition CreateDataSource :: "string \<Rightarrow> datasource option io" where
  "CreateDataSource p s =
     (Inr (case s of
             Absent \<Rightarrow> Some NewFileSet
           | Present d \<Rightarrow>
               (case map_of d p of
                  None \<Rightarrow> Some NewFileSet
                | Some Dir \<Rightarrow> Some InDirectory
                | Some (File c) \<Rightarrow> None)), s)"

text \<open>
  The shapefile driver keeps a layer in the \<^verbatim>\<open>.shp\<close> file and its companions; the layer
  itself is represented at the \<^verbatim>\<open>.shp\<close> name. The files of a data source that is a
  directory are inside that directory, which is not modelled.
\<close>

definition shapefile_write :: "datasource \<Rightarrow> layer \<Rightarrow> unit io" where
  "shapefile_write contour_ds l =
     (case contour_ds of
        NewFileSet \<Rightarrow>
          io_bind (driver_write tmp_contours_shp (Shapefile l)) (\<lambda>_.
          io_bind (driver_write tmp_contours_shx Sidecar) (\<lambda>_.
          io_bind (driver_write tmp_contours_dbf Sidecar) (\<lambda>_.
          driver_write tmp_contours_prj Sidecar)))
      | InDirectory \<Rightarrow> io_return ())"

definition CreateLayer :: "string \<Rightarrow> string \<Rightarrow> OGRwkbGeometryType \<Rightarrow> layer" where
  "CreateLayer name proj gt =
     \<lparr>layer_name = name, srs = proj, geom_type = gt, field_defns = [], features = []\<rparr>"

definition CreateField :: "string \<times> OGRFieldType \<Rightarrow> layer \<Rightarrow> layer" where
  "CreateField field_def l = l\<lparr>field_defns := field_defns l @ [field_def]\<rparr>"

text \<open>
  Lines 63 to 84. \<open>interval\<close> is \<open>None\<close> when the caller leaves the keyword argument out;
  its default is 1. The argument \<^verbatim>\<open>clipped_dem_feet_data\<close> is not used: the stage reads
  \<^verbatim>\<open>tmp_feet.tif\<close>. \<^verbatim>\<open>contour_ds.CreateLayer\<close> is an \<^verbatim>\<open>AttributeError\<close> when the data
  source is \<^verbatim>\<open>None\<close>. The nodata argument of \<^verbatim>\<open>gdal.ContourGenerate\<close> is a number:
  \<^verbatim>\<open>None\<close> is a \<^verbatim>\<open>TypeError\<close>. The status the primitive returns is dropped.
\<close>

definition generate_contours :: "extern \<Rightarrow> content \<Rightarrow> real option \<Rightarrow> content io" where
  "generate_contours ext clipped_dem_feet_data interval_arg =
     (let interval = (case interval_arg of None \<Rightarrow> 1 | Some i \<Rightarrow> i)
      in
     io_bind (gdal_Open tmp_feet) (\<lambda>input_ds_opt.
     io_bind (deref input_ds_opt) (\<lambda>input_ds.
     (let raster_band_opt = GetRasterBand input_ds 1;
          proj = Projection input_ds
      in
     io_bind (deref raster_band_opt) (\<lambda>raster_band.
     (let dem_nan = NoDataValue raster_band
      in
     io_bind (CreateDataSource tmp_contours_shp) (\<lambda>contour_ds_opt.
     io_bind (deref contour_ds_opt) (\<lambda>contour_ds.
     (let created = CreateLayer ''contour'' proj wkbLineString25D
      in
     io_bind (shapefile_write contour_ds created) (\<lambda>_.
     (let contour_shp = CreateField (''elev'', OFTReal) (CreateField (''ID'', OFTInteger) created)
      in
     io_bind (shapefile_write contour_ds contour_shp) (\<lambda>_.
     (case dem_nan of
        None \<Rightarrow> io_raise TypeError
      | Some nd \<Rightarrow>
         (let traced = ContourGenerate ext
                \<lparr>srcBand = raster_band, contourInterval = interval, contourBase = 0,
                 fixedLevels = [], useNoData = 1, noDataValue = nd,
                 dstLayer = contour_shp, idField = 0, elevField = 1\<rparr>
          in
         io_bind (shapefile_write contour_ds
                    (contour_shp\<lparr>features := features contour_shp @ traced\<rparr>))
           (\<lambda>_.
         open_read tmp_contours_shp)))))))))))))))"

subsection \<open>\<^verbatim>\<open>convert_shapefile_to_dxf\<close>\<close>

definition tmp_contours_dxf :: string where
  "tmp_contours_dxf = ''tmp_contours.dxf''"

text \<open>Lines 86 to 93. The argument \<^verbatim>\<open>shapefile_data\<close> is not used.\<close>

definition convert_shapefile_to_dxf :: "extern \<Rightarrow> content \<Rightarrow> content io" where
  "convert_shapefile_to_dxf ext shapefile_data =
     io_bind (subprocess_run tmp_contours_dxf
                (\<lambda>s. ogr2ogr ext ''DXF'' ''elev''
                       (file_at s tmp_contours_shp) (file_at s tmp_contours_dxf)))
       (\<lambda>_.
     open_read tmp_contours_dxf)"

subsection \<open>\<^verbatim>\<open>raster_to_points\<close>\<close>

definition tmp_points :: string where
  "tmp_points = ''tmp_points.csv''"

type_synonym point = "real \<times> real \<times> pyfloat"

text \<open>
  \<^verbatim>\<open>value != nodata\<close>: true of every value when \<^verbatim>\<open>nodata\<close> is \<^verbatim>\<open>None\<close>, and when it is
  NaN.
\<close>

definition py_ne :: "pyfloat \<Rightarrow> pyfloat option \<Rightarrow> bool" where
  "py_ne v nodata = (case nodata of None \<Rightarrow> True | Some nd \<Rightarrow> \<not> py_eq v nd)"

text \<open>
  The body of the inner loop, lines 107 to 111. \<open>out\<close> is the list of the lines written
  so far.
\<close>

definition sample_cell ::
  "geotransform \<Rightarrow> band \<Rightarrow> pyfloat option \<Rightarrow> nat \<Rightarrow> nat \<Rightarrow> point list \<Rightarrow> point list" where
  "sample_cell gt b nodata y x out =
     (let val = band_array b ! y ! x
      in if py_ne val nodata then
           (let px = gt0 gt + real x * gt1 gt + real y * gt2 gt;
                py = gt3 gt + real x * gt4 gt + real y * gt5 gt
            in out @ [(px, py, val)])
         else out)"

text \<open>\<^verbatim>\<open>for x in range(band.XSize)\<close>\<close>

definition sample_row ::
  "geotransform \<Rightarrow> band \<Rightarrow> pyfloat option \<Rightarrow> nat \<Rightarrow> nat \<Rightarrow> point list \<Rightarrow> point list" where
  "sample_row gt b nodata xsize y out = fold (sample_cell gt b nodata y) [0..<xsize] out"

text \<open>\<^verbatim>\<open>for y in range(band.YSize)\<close>\<close>

definition sample_rows ::
  "geotransform \<Rightarrow> band \<Rightarrow> pyfloat option \<Rightarrow> nat \<Rightarrow> nat \<Rightarrow> point list" where
  "sample_rows gt b nodata xsize ysize = fold (sample_row gt b nodata xsize) [0..<ysize] []"

text \<open>
  Lines 95 to 116. The argument \<^verbatim>\<open>clipped_dem_data\<close> is not used: the stage reads
  \<^verbatim>\<open>tmp_clip.tif\<close>. The table is the header line and the records in the order written.
\<close>

definition raster_to_points :: "content \<Rightarrow> content io" where
  "raster_to_points clipped_dem_data =
     io_bind (gdal_Open tmp_clip) (\<lambda>input_ds_opt.
     io_bind (deref input_ds_opt) (\<lambda>input_ds.
     io_bind (deref (GetRasterBand input_ds 1)) (\<lambda>band.
     (let nodata = NoDataValue band;
          gt = GeoTransform input_ds
      in
     io_bind (open_write tmp_points (CSV ''X,Y,Z'' [])) (\<lambda>_.
     io_bind (open_write tmp_points
                (CSV ''X,Y,Z''
                   (sample_rows gt band nodata (RasterXSize input_ds) (RasterYSize input_ds))))
       (\<lambda>_.
     open_read tmp_points))))))"

subsection \<open>\<^verbatim>\<open>upload\<close>\<close>

record request =
  dem_filename :: string
  dem_file :: content
  kml_filename :: string
  kml_file :: content

text \<open>
  Lines 160 to 163: \<^verbatim>\<open>os.remove\<close> on every entry of the directory that is a regular
  file.
\<close>

definition remove_files :: "unit io" where
  "remove_files s =
     (case s of
        Absent \<Rightarrow> (Inl FileNotFoundError, s)
      | Present d \<Rightarrow> (Inr (), Present (filter (\<lambda>(name, e). e = Dir) d)))"

text \<open>\<^verbatim>\<open>os.rmdir(temp_dir)\<close>: an \<^verbatim>\<open>OSError\<close> when the directory is not empty.\<close>

definition rmdir :: "unit io" where
  "rmdir s =
     (case s of
        Absent \<Rightarrow> (Inl FileNotFoundError, s)
      | Present d \<Rightarrow> (if d = [] then (Inr (), Absent) else (Inl OSError, s)))"

text \<open>
  Lines 128 to 171. The result is the list of the entries of the zip archive that is sent
  back.
\<close>

definition upload :: "extern \<Rightarrow> request \<Rightarrow> (string \<times> content) list io" where
  "upload ext req =
     io_bind create_temp_dir (\<lambda>_.
     (let dem_path = dem_filename req;
          kml_path = kml_filename req
      in
     io_bind (open_write dem_path (dem_file req)) (\<lambda>_.
     io_bind (open_write kml_path (kml_file req)) (\<lambda>_.
     io_bind (clip_raster ext dem_path kml_path) (\<lambda>clipped_dem_data.
     io_bind (transform_to_feet clipped_dem_data) (\<lambda>clipped_dem_feet_data.
     io_bind (generate_contours ext clipped_dem_feet_data None) (\<lambda>contour_shp_data.
     io_bind (convert_shapefile_to_dxf ext contour_shp_data) (\<lambda>dxf_data.
     io_bind (raster_to_points clipped_dem_data) (\<lambda>csv_data.
     (let zip_buffer =
            [(''clipped_dem.tif'', clipped_dem_data),
             (''clipped_dem_feet.tif'', clipped_dem_feet_data),
             (''contours-shape-file.shp'', contour_shp_data),
             (''contours.dxf'', dxf_data),
             (''pvsyst_shading_file.csv'', csv_data)]
      in
     io_bind remove_files (\<lambda>_.
     io_bind rmdir (\<lambda>_.
     io_return zip_buffer))))))))))))"

section \<open>Reference definitions\<close>

text \<open>
  The converted raster, as the specification describes it: same sizes, geotransform and
  projection; one 32-bit float band in which a cell equal to the nodata value \<open>nd\<close> is
  left as it is and every other cell is multiplied by 3.28084; \<open>nd\<close> stamped again.
\<close>

definition spec_converted :: "dataset \<Rightarrow> band \<Rightarrow> pyfloat \<Rightarrow> dataset" where
  "spec_converted ds b nd =
     \<lparr>RasterXSize = RasterXSize ds, RasterYSize = RasterYSize ds,
      GeoTransform = GeoTransform ds, Projection = Projection ds,
      bands = [\<lparr>DataType = GDT_Float32,
                 band_array =
                   map (map (\<lambda>v. if v = nd then v else py_mul v 3.28084)) (band_array b),
                 NoDataValue = Some nd\<rparr>]\<rparr>"

text \<open>A name of the scratch directory that a file can be written to.\<close>

definition writable :: "directory \<Rightarrow> string \<Rightarrow> bool" where
  "writable d p \<longleftrightarrow> map_of d p \<noteq> Some Dir"

text \<open>
  The cells \<open>(x, y)\<close> of a raster of width \<open>w\<close> and height \<open>h\<close> in row-major order, \<open>y\<close>
  outer and \<open>x\<close> inner:
\<close>

definition cells_row_major :: "nat \<Rightarrow> nat \<Rightarrow> (nat \<times> nat) list" where
  "cells_row_major w h = concat (map (\<lambda>y. map (\<lambda>x. (x, y)) [0..<w]) [0..<h])"

text \<open>
  The cells that the sampler takes for valid: those of which \<^verbatim>\<open>value != nodata\<close> holds.
\<close>

definition valid_cell :: "band \<Rightarrow> nat \<times> nat \<Rightarrow> bool" where
  "valid_cell b = (\<lambda>(x, y). py_ne (band_array b ! y ! x) (NoDataValue b))"

text \<open>
  The cells that are valid in the sense of the specification: those whose value is not
  the nodata value of the band. A cell that holds NaN in a band whose nodata value is NaN
  holds the nodata value.
\<close>

definition not_sentinel :: "band \<Rightarrow> nat \<times> nat \<Rightarrow> bool" where
  "not_sentinel b = (\<lambda>(x, y). Some (band_array b ! y ! x) \<noteq> NoDataValue b)"

text \<open>The record of a cell: its world coordinates by the affine transform, and its value.\<close>

definition world_point :: "geotransform \<Rightarrow> band \<Rightarrow> nat \<times> nat \<Rightarrow> point" where
  "world_point gt b =
     (\<lambda>(x, y). (gt0 gt + real x * gt1 gt + real y * gt2 gt,
               gt3 gt + real x * gt4 gt + real y * gt5 gt,
               band_array b ! y ! x))"

text \<open>One record for each cell that the sampler takes for valid, in row-major order.\<close>

definition point_cloud :: "dataset \<Rightarrow> band \<Rightarrow> point list" where
  "point_cloud ds b =
     map (world_point (GeoTransform ds) b)
       (filter (valid_cell b) (cells_row_major (RasterXSize ds) (RasterYSize ds)))"

text \<open>
  The point cloud, as the specification describes it: one record for each cell whose
  value is not the nodata value, in row-major order.
\<close>

definition spec_point_cloud :: "dataset \<Rightarrow> band \<Rightarrow> point list" where
  "spec_point_cloud ds b =
     map (world_point (GeoTransform ds) b)
       (filter (not_sentinel b) (cells_row_major (RasterXSize ds) (RasterYSize ds)))"

text \<open>The number of cells of the band whose value is not the nodata value.\<close>

definition valid_count :: "band \<Rightarrow> nat" where
  "valid_count b = length (filter (\<lambda>v. Some v \<noteq> NoDataValue b) (concat (band_array b)))"

text \<open>A directory without subdirectories, and the files the shapefile driver leaves.\<close>

definition no_dirs :: "directory \<Rightarrow> bool" where
  "no_dirs d \<longleftrightarrow> list_all (\<lambda>(name, e). e \<noteq> Dir) d"

definition shapefile_files :: "layer \<Rightarrow> directory \<Rightarrow> directory" where
  "shapefile_files l d =
     AList.update tmp_contours_prj (File Sidecar)
       (AList.update tmp_contours_dbf (File Sidecar)
         (AList.update tmp_contours_shx (File Sidecar)
           (AList.update tmp_contours_shp (File (Shapefile l)) d)))"

text \<open>The layer the contour stage hands to the primitive, and the call it makes.\<close>

definition contour_layer :: "string \<Rightarrow> layer" where
  "contour_layer proj =
     \<lparr>layer_name = ''contour'', srs = proj, geom_type = wkbLineString25D,
      field_defns = [(''ID'', OFTInteger), (''elev'', OFTReal)], features = []\<rparr>"

definition contour_call_of :: "band \<Rightarrow> real \<Rightarrow> pyfloat \<Rightarrow> string \<Rightarrow> contour_call" where
  "contour_call_of b interval nd proj =
     \<lparr>srcBand = b, contourInterval = interval, contourBase = 0, fixedLevels = [],
      useNoData = 1, noDataValue = nd, dstLayer = contour_layer proj,
      idField = 0, elevField = 1\<rparr>"

section \<open>Example inputs\<close>

definition example_band :: band where
  "example_band =
     \<lparr>DataType = GDT_Int16, band_array = [[Num 1, Num (- 9999)], [Num 2, Num 3]],
      NoDataValue = Some (Num (- 9999))\<rparr>"

definition example_dem :: dataset where
  "example_dem =
     \<lparr>RasterXSize = 2, RasterYSize = 2,
      GeoTransform = \<lparr>gt0 = 100, gt1 = 10, gt2 = 0, gt3 = 200, gt4 = 0, gt5 = - 10\<rparr>,
      Projection = ''EPSG:32633'', bands = [example_band]\<rparr>"

definition void_band :: band where
  "void_band =
     \<lparr>DataType = GDT_Float64, band_array = [[Num (- 9999), Num (- 9999)]],
      NoDataValue = Some (Num (- 9999))\<rparr>"

definition void_dem :: dataset where
  "void_dem =
     \<lparr>RasterXSize = 2, RasterYSize = 1,
      GeoTransform = \<lparr>gt0 = 100, gt1 = 10, gt2 = 0, gt3 = 200, gt4 = 0, gt5 = - 10\<rparr>,
      Projection = ''EPSG:32633'', bands = [void_band]\<rparr>"

definition plain_band :: band where
  "plain_band =
     \<lparr>DataType = GDT_Float32, band_array = [[Num 5, Num 6]], NoDataValue = None\<rparr>"

definition plain_dem :: dataset where
  "plain_dem =
     \<lparr>RasterXSize = 2, RasterYSize = 1,
      GeoTransform = \<lparr>gt0 = 100, gt1 = 10, gt2 = 0, gt3 = 200, gt4 = 0, gt5 = - 10\<rparr>,
      Projection = ''EPSG:32633'', bands = [plain_band]\<rparr>"

text \<open>A float raster whose nodata value is NaN; its second cell holds no elevation.\<close>

definition nan_band :: band where
  "nan_band =
     \<lparr>DataType = GDT_Float32, band_array = [[Num 5, NaN]], NoDataValue = Some NaN\<rparr>"

definition nan_dem :: dataset where
  "nan_dem =
     \<lparr>RasterXSize = 2, RasterYSize = 1,
      GeoTransform = \<lparr>gt0 = 100, gt1 = 10, gt2 = 0, gt3 = 200, gt4 = 0, gt5 = - 10\<rparr>,
      Projection = ''EPSG:32633'', bands = [nan_band]\<rparr>"

text \<open>
  Collaborators for the examples: the boundary covers the whole raster, so that
  \<^verbatim>\<open>gdalwarp\<close> leaves the source raster itself and leaves nothing when the source is
  not a raster; one line is traced, at the level of the interval, unless every cell of
  the band is the nodata value; \<^verbatim>\<open>ogr2ogr\<close> transcribes the layer.
\<close>

definition example_ext :: extern where
  "example_ext =
     \<lparr>gdalwarp = (\<lambda>src cutline dst.
        case src of Some (Raster ds) \<Rightarrow> Some (Raster ds) | _ \<Rightarrow> None),
      ContourGenerate = (\<lambda>call.
        if list_all (list_all (\<lambda>v. v = noDataValue call)) (band_array (srcBand call)) then []
        else [\<lparr>attributes = [IntegerValue 0, RealValue (contourInterval call)],
               geometry = []\<rparr>]),
      ogr2ogr = (\<lambda>format zfield src dst.
        case src of Some (Shapefile l) \<Rightarrow> Some (DXF l) | _ \<Rightarrow> None)\<rparr>"

definition example_request :: request where
  "example_request =
     \<lparr>dem_filename = ''dem.tif'', dem_file = Raster example_dem,
      kml_filename = ''site.kml'', kml_file = Blob ''boundary''\<rparr>"

text \<open>A request whose elevation file is not a raster that GDAL can open.\<close>

definition broken_request :: request where
  "broken_request =
     \<lparr>dem_filename = ''dem.tif'', dem_file = Blob ''not a raster'',
      kml_filename = ''site.kml'', kml_file = Blob ''boundary''\<rparr>"

definition example_feet :: dataset where
  "example_feet =
     \<lparr>RasterXSize = 2, RasterYSize = 2,
      GeoTransform = \<lparr>gt0 = 100, gt1 = 10, gt2 = 0, gt3 = 200, gt4 = 0, gt5 = - 10\<rparr>,
      Projection = ''EPSG:32633'',
      bands = [\<lparr>DataType = GDT_Float32,
                 band_array = [[Num 3.28084, Num (- 9999)], [Num 6.56168, Num 9.84252]],
                 NoDataValue = Some (Num (- 9999))\<rparr>]\<rparr>"

definition example_contours :: layer where
  "example_contours =
     \<lparr>layer_name = ''contour'', srs = ''EPSG:32633'', geom_type = wkbLineString25D,
      field_defns = [(''ID'', OFTInteger), (''elev'', OFTReal)],
      features = [\<lparr>attributes = [IntegerValue 0, RealValue 1], geometry = []\<rparr>]\<rparr>"

definition example_bundle :: "(string \<times> content) list" where
  "example_bundle =
     [(''clipped_dem.tif'', Raster example_dem),
      (''clipped_dem_feet.tif'', Raster example_feet),
      (''contours-shape-file.shp'', Shapefile example_contours),
      (''contours.dxf'', DXF example_contours),
      (''pvsyst_shading_file.csv'',
       CSV ''X,Y,Z'' [(100, 200, Num 1), (100, 190, Num 2), (110, 190, Num 3)])]"





section \<open>Running a computation step by step\<close>

lemma io_bind_return: "io_bind (io_return a) f s = f a s"
  by (simp add: io_bind_def io_return_def)

lemma io_bind_raise: "io_bind (io_raise e) f s = (Inl e, s)"
  by (simp add: io_bind_def io_raise_def)

lemma open_write_ok:
  "map_of d p \<noteq> Some Dir \<Longrightarrow>
   open_write p c (Present d) = (Inr (), Present (AList.update p (File c) d))"
  by (auto simp: open_write_def split: option.splits entry.splits)

lemma tool_write_ok:
  "map_of d p \<noteq> Some Dir \<Longrightarrow>
   tool_write p c (Present d) = Present (AList.update p (File c) d)"
  by (auto simp: tool_write_def split: option.splits entry.splits)

lemma file_at_update:
  "file_at (Present (AList.update p (File c) d)) q =
     (if q = p then Some c else file_at (Present d) q)"
  by (simp add: file_at_def update_conv')

lemma open_read_update:
  "open_read p (Present (AList.update p (File c) d)) =
     (Inr c, Present (AList.update p (File c) d))"
  by (simp add: open_read_def update_conv')

lemma io_bind_open_write:
  "map_of d p \<noteq> Some Dir \<Longrightarrow>
   io_bind (open_write p c) f (Present d) = f () (Present (AList.update p (File c) d))"
  by (simp add: io_bind_def open_write_ok)

lemma io_bind_gdal_Open:
  "io_bind (gdal_Open p) f s =
     f (case file_at s p of Some (Raster ds) \<Rightarrow> Some ds | _ \<Rightarrow> None) s"
  by (simp add: io_bind_def gdal_Open_def)

lemma io_bind_deref_Some: "io_bind (deref (Some x)) f s = f x s"
  by (simp add: io_bind_def deref_def io_return_def)

lemma io_bind_deref_None: "io_bind (deref None) f s = (Inl AttributeError, s)"
  by (simp add: io_bind_def deref_def io_raise_def)

lemma io_bind_driver_write: "io_bind (driver_write p c) f s = f () (tool_write p c s)"
  by (simp add: io_bind_def driver_write_def)

lemma io_bind_ma_min: "concat m \<noteq> [] \<Longrightarrow> io_bind (ma_min m) (\<lambda>_. g) s = g s"
  by (auto simp add: io_bind_def ma_min_def io_return_def)

lemma io_bind_ma_max: "concat m \<noteq> [] \<Longrightarrow> io_bind (ma_max m) (\<lambda>_. g) s = g s"
  by (auto simp add: io_bind_def ma_max_def io_return_def)

lemma io_bind_driver_Create:
  "xsize \<noteq> 0 \<Longrightarrow> ysize \<noteq> 0 \<Longrightarrow>
   io_bind (driver_Create p xsize ysize nbands t) f s =
     (let ds = \<lparr>RasterXSize = xsize, RasterYSize = ysize,
                GeoTransform = default_geotransform, Projection = [],
                bands = replicate nbands
                  \<lparr>DataType = t,
                   band_array = replicate ysize (replicate xsize (Num 0)),
                   NoDataValue = None\<rparr>\<rparr>
      in f (Some ds) (tool_write p (Raster ds) s))"
  by (simp add: driver_Create_def io_bind_def driver_write_def io_return_def Let_def)

lemma io_bind_on_raise_return: "io_bind (on_raise close (io_return a)) f s = f a s"
  by (simp add: io_bind_def on_raise_def io_return_def)

lemmas io_steps = io_bind_open_write io_bind_gdal_Open io_bind_deref_Some io_bind_deref_None
  io_bind_driver_write io_bind_return io_bind_raise

section \<open>The unit converter\<close>

lemma concat_nonempty:
  assumes "wf_band w h b" "0 < w" "0 < h"
  shows "concat (band_array b) \<noteq> []"
proof -
  from assms obtain r rs where rows: "band_array b = r # rs"
    by (cases "band_array b") (auto simp: wf_band_def)
  with assms have "length r = w" by (simp add: wf_band_def)
  with assms rows show ?thesis by auto
qed

lemma concat_map_map_Nil: "concat (map (map f) a) = [] \<longleftrightarrow> concat a = []"
  by (simp add: map_concat [symmetric])

lemma masked_nonempty: "concat a \<noteq> [] \<Longrightarrow> concat (masked_equal a v) \<noteq> []"
  by (simp add: masked_equal_def concat_map_map_Nil)

lemma ma_mul_nonempty: "concat m \<noteq> [] \<Longrightarrow> concat (ma_mul m k) \<noteq> []"
  by (simp add: ma_mul_def concat_map_map_Nil)

lemma py_eq_iff: "py_eq v nd \<longleftrightarrow> v = nd \<and> v \<noteq> NaN"
  by (cases v; cases nd) simp_all

text \<open>
  A cell equal to the nodata value is masked and filled again, unless both are NaN; a NaN
  cell is not masked, and its product is NaN again.
\<close>

lemma feet_cell:
  "(if py_eq v nd then nd else py_mul v k) = (if v = nd then v else py_mul v k)"
  by (cases v; cases nd) simp_all

lemma filled_feet:
  "filled (ma_mul (masked_equal a (Some nd)) k) (Some nd) =
     map (map (\<lambda>v. if v = nd then v else py_mul v k)) a"
proof -
  have "filled (ma_mul (masked_equal a (Some nd)) k) (Some nd) =
      map (map (\<lambda>v. if py_eq v nd then nd else py_mul v k)) a"
    by (simp add: filled_def ma_mul_def masked_equal_def comp_def)
  then show ?thesis
    by (simp only: feet_cell)
qed

lemma tmp_names_distinct: "tmp_clip \<noteq> tmp_feet" "tmp_feet \<noteq> tmp_clip"
  by (simp_all add: tmp_clip_def tmp_feet_def)

text \<open>
  The whole run of the stage on a well-formed raster whose first band has a nodata value:
  the result and the two files it leaves.
\<close>

lemma transform_to_feet_run:
  assumes wf: "wf_dataset ds"
    and b: "bands ds = b # bs"
    and nd: "NoDataValue b = Some nd"
    and clip: "writable d tmp_clip"
    and feet: "writable d tmp_feet"
  shows "transform_to_feet (Raster ds) (Present d) =
           (Inr (Raster (spec_converted ds b nd)),
            Present (AList.update tmp_feet (File (Raster (spec_converted ds b nd)))
                      (AList.update tmp_clip (File (Raster ds)) d)))"
proof -
  have sizes: "0 < RasterXSize ds" "0 < RasterYSize ds"
    and wfb: "wf_band (RasterXSize ds) (RasterYSize ds) b"
    using wf b by (simp_all add: wf_dataset_def)
  have ne: "concat (band_array b) \<noteq> []"
    using concat_nonempty [OF wfb sizes] .
  have sizes0: "RasterXSize ds \<noteq> 0" "RasterYSize ds \<noteq> 0"
    using sizes by simp_all
  note nem = masked_nonempty [OF ne]
  note logged = io_bind_ma_min [OF nem] io_bind_ma_max [OF nem]
    io_bind_ma_min [OF ma_mul_nonempty [OF nem]] io_bind_ma_max [OF ma_mul_nonempty [OF nem]]
  have clip': "map_of d tmp_clip \<noteq> Some Dir" and feet': "map_of d tmp_feet \<noteq> Some Dir"
    using clip feet by (simp_all add: writable_def)
  show ?thesis
    unfolding transform_to_feet_def Let_def
    by (simp add: io_steps clip' file_at_update b nd logged
        filled_feet io_bind_driver_Create sizes0 tool_write_ok feet' update_conv'
        tmp_names_distinct Let_def
        GetRasterBand_def SetNoDataValue_def io_bind_on_raise_return open_read_update
        spec_converted_def
        cong: if_cong)
qed

lemma example_dem_wf: "wf_dataset example_dem"
  by (simp add: wf_dataset_def wf_band_def example_dem_def example_band_def)

lemma void_dem_wf: "wf_dataset void_dem"
  by (simp add: wf_dataset_def wf_band_def void_dem_def void_band_def)

lemma writable_Nil: "writable [] p"
  by (simp add: writable_def)

text \<open>
  C1. Unit conversion: on a raster whose first band defines a nodata value \<open>nd\<close>, the
  converter returns a raster with the same sizes, geotransform and projection and a single
  32-bit float band, stamped with \<open>nd\<close> again, in which every cell equal to \<open>nd\<close> is left
  as it is and every other cell is multiplied by 3.28084.
\<close>

theorem transform_to_feet_converts:
  assumes "wf_dataset ds"
    and "bands ds = b # bs"
    and "NoDataValue b = Some nd"
    and "writable d tmp_clip"
    and "writable d tmp_feet"
  shows "fst (transform_to_feet (Raster ds) (Present d)) =
           Inr (Raster
             \<lparr>RasterXSize = RasterXSize ds, RasterYSize = RasterYSize ds,
              GeoTransform = GeoTransform ds, Projection = Projection ds,
              bands = [\<lparr>DataType = GDT_Float32,
                         band_array =
                           map (map (\<lambda>v. if v = nd then v else py_mul v 3.28084))
                             (band_array b),
                         NoDataValue = Some nd\<rparr>]\<rparr>)"
  using transform_to_feet_run [OF assms] by (simp only: spec_converted_def fst_conv)

theorem transform_to_feet_converts_witness:
  "wf_dataset example_dem \<and> bands example_dem = example_band # [] \<and>
   NoDataValue example_band = Some (Num (- 9999)) \<and>
   writable [] tmp_clip \<and> writable [] tmp_feet \<and>
   fst (transform_to_feet (Raster example_dem) (Present [])) =
     Inr (Raster
       \<lparr>RasterXSize = 2, RasterYSize = 2,
        GeoTransform = \<lparr>gt0 = 100, gt1 = 10, gt2 = 0, gt3 = 200, gt4 = 0, gt5 = - 10\<rparr>,
        Projection = ''EPSG:32633'',
        bands = [\<lparr>DataType = GDT_Float32,
                   band_array = [[Num 3.28084, Num (- 9999)], [Num 6.56168, Num 9.84252]],
                   NoDataValue = Some (Num (- 9999))\<rparr>]\<rparr>)"
proof -
  have h2: "bands example_dem = example_band # []"
    by (simp add: example_dem_def)
  have h3: "NoDataValue example_band = Some (Num (- 9999))"
    by (simp add: example_band_def)
  show ?thesis
    using transform_to_feet_converts [OF example_dem_wf h2 h3 writable_Nil writable_Nil]
      example_dem_wf h2 h3 writable_Nil [of tmp_clip] writable_Nil [of tmp_feet]
    by (simp add: example_dem_def example_band_def)
qed

lemma concat_has_cell: "concat xss \<noteq> [] \<Longrightarrow> \<exists>row \<in> set xss. \<exists>v. v \<in> set row"
  by (induction xss) (auto simp: neq_Nil_conv)

lemma all_nodata_array:
  assumes wfb: "wf_band w h b"
    and all: "\<forall>row \<in> set (band_array b). \<forall>v \<in> set row. v = nd"
  shows "band_array b = replicate h (replicate w nd)"
proof -
  have row: "row = replicate w nd" if "row \<in> set (band_array b)" for row
  proof -
    from wfb that have "length row = w"
      by (simp add: wf_band_def list_all_iff)
    moreover from all that have "\<forall>v \<in> set row. v = nd" by blast
    ultimately show ?thesis
      by (metis replicate_length_same)
  qed
  have "length (band_array b) = h"
    using wfb by (simp add: wf_band_def)
  with row show ?thesis
    by (metis replicate_length_same)
qed

text \<open>
  C8. A raster in which no cell is valid (every cell carries the nodata value of the band):
  the converter returns, and its output is the raster of the same sizes in which every
  cell is the nodata value.
\<close>

theorem transform_to_feet_all_nodata:
  assumes wf: "wf_dataset ds"
    and b: "bands ds = b # bs"
    and void: "\<forall>row \<in> set (band_array b). \<forall>v \<in> set row. Some v = NoDataValue b"
    and clip: "writable d tmp_clip"
    and feet: "writable d tmp_feet"
  shows "\<exists>nd. NoDataValue b = Some nd \<and>
           fst (transform_to_feet (Raster ds) (Present d)) =
             Inr (Raster
               \<lparr>RasterXSize = RasterXSize ds, RasterYSize = RasterYSize ds,
                GeoTransform = GeoTransform ds, Projection = Projection ds,
                bands = [\<lparr>DataType = GDT_Float32,
                           band_array =
                             replicate (RasterYSize ds) (replicate (RasterXSize ds) nd),
                           NoDataValue = Some nd\<rparr>]\<rparr>)"
proof -
  have sizes: "0 < RasterXSize ds" "0 < RasterYSize ds"
    and wfb: "wf_band (RasterXSize ds) (RasterYSize ds) b"
    using wf b by (simp_all add: wf_dataset_def)
  from concat_nonempty [OF wfb sizes] obtain row v
    where "row \<in> set (band_array b)" "v \<in> set row"
    using concat_has_cell by blast
  with void have nd: "NoDataValue b = Some v" by auto
  with void have "\<forall>row \<in> set (band_array b). \<forall>x \<in> set row. x = v" by auto
  from all_nodata_array [OF wfb this]
  have arr: "band_array b = replicate (RasterYSize ds) (replicate (RasterXSize ds) v)" .
  have "map (map (\<lambda>x. if x = v then x else py_mul x 3.28084)) (band_array b) = band_array b"
    by (subst (1 2) arr) simp
  with transform_to_feet_run [OF wf b nd clip feet] nd arr show ?thesis
    by (simp add: spec_converted_def)
qed

theorem transform_to_feet_all_nodata_witness:
  "wf_dataset void_dem \<and> bands void_dem = void_band # [] \<and>
   band_array void_band = [[Num (- 9999), Num (- 9999)]] \<and> NoDataValue void_band = Some (Num (- 9999)) \<and>
   writable [] tmp_clip \<and> writable [] tmp_feet \<and>
   fst (transform_to_feet (Raster void_dem) (Present [])) =
     Inr (Raster
       \<lparr>RasterXSize = 2, RasterYSize = 1,
        GeoTransform = \<lparr>gt0 = 100, gt1 = 10, gt2 = 0, gt3 = 200, gt4 = 0, gt5 = - 10\<rparr>,
        Projection = ''EPSG:32633'',
        bands = [\<lparr>DataType = GDT_Float32, band_array = [[Num (- 9999), Num (- 9999)]],
                   NoDataValue = Some (Num (- 9999))\<rparr>]\<rparr>)"
proof -
  have h2: "bands void_dem = void_band # []"
    by (simp add: void_dem_def)
  have h3: "\<forall>row \<in> set (band_array void_band). \<forall>v \<in> set row. Some v = NoDataValue void_band"
    by (simp add: void_band_def)
  have nd: "NoDataValue void_band = Some (Num (- 9999))"
    and arr: "band_array void_band = [[Num (- 9999), Num (- 9999)]]"
    by (simp_all add: void_band_def)
  have "fst (transform_to_feet (Raster void_dem) (Present [])) =
      Inr (Raster
        \<lparr>RasterXSize = RasterXSize void_dem, RasterYSize = RasterYSize void_dem,
         GeoTransform = GeoTransform void_dem, Projection = Projection void_dem,
         bands = [\<lparr>DataType = GDT_Float32,
                    band_array =
                      replicate (RasterYSize void_dem) (replicate (RasterXSize void_dem) (Num (- 9999))),
                    NoDataValue = Some (Num (- 9999))\<rparr>]\<rparr>)"
    using transform_to_feet_all_nodata [OF void_dem_wf h2 h3 writable_Nil writable_Nil] nd
    by auto
  then have "fst (transform_to_feet (Raster void_dem) (Present [])) =
      Inr (Raster
        \<lparr>RasterXSize = 2, RasterYSize = 1,
         GeoTransform = \<lparr>gt0 = 100, gt1 = 10, gt2 = 0, gt3 = 200, gt4 = 0, gt5 = - 10\<rparr>,
         Projection = ''EPSG:32633'',
         bands = [\<lparr>DataType = GDT_Float32, band_array = [[Num (- 9999), Num (- 9999)]],
                    NoDataValue = Some (Num (- 9999))\<rparr>]\<rparr>)"
    by (simp add: void_dem_def numeral_2_eq_2)
  with void_dem_wf h2 arr nd writable_Nil [of tmp_clip] writable_Nil [of tmp_feet]
  show ?thesis
    by (simp only: simp_thms)
qed

section \<open>The point sampler\<close>

lemma fold_sample_cell:
  "fold (sample_cell gt b (NoDataValue b) y) xs out =
     out @ map (world_point gt b) (filter (valid_cell b) (map (\<lambda>x. (x, y)) xs))"
  by (induction xs arbitrary: out)
     (simp_all add: sample_cell_def world_point_def valid_cell_def Let_def)

lemma fold_sample_row:
  "fold (sample_row gt b (NoDataValue b) w) ys out =
     out @ map (world_point gt b)
             (filter (valid_cell b) (concat (map (\<lambda>y. map (\<lambda>x. (x, y)) [0..<w]) ys)))"
  by (induction ys arbitrary: out) (simp_all add: sample_row_def fold_sample_cell)

lemma sample_rows_cloud:
  "sample_rows (GeoTransform ds) b (NoDataValue b) (RasterXSize ds) (RasterYSize ds) =
     point_cloud ds b"
  by (simp add: sample_rows_def fold_sample_row point_cloud_def cells_row_major_def)

lemma raster_to_points_run:
  assumes clip: "file_at (Present d) tmp_clip = Some (Raster ds)"
    and b: "bands ds = b # bs"
    and points: "writable d tmp_points"
  shows "raster_to_points clipped_dem_data (Present d) =
           (Inr (CSV ''X,Y,Z'' (point_cloud ds b)),
            Present (AList.update tmp_points (File (CSV ''X,Y,Z'' (point_cloud ds b))) d))"
proof -
  have points': "map_of d tmp_points \<noteq> Some Dir"
    using points by (simp add: writable_def)
  have again: "map_of (AList.update tmp_points v d) tmp_points \<noteq> Some Dir" if "v \<noteq> Dir" for v
    using that by (simp add: update_conv')
  show ?thesis
    unfolding raster_to_points_def Let_def
    by (simp add: io_steps clip b GetRasterBand_def points' again sample_rows_cloud
        open_read_update)
qed

lemma cells_row_major_set: "set (cells_row_major w h) = {(x, y). x < w \<and> y < h}"
  by (auto simp: cells_row_major_def)

lemma cells_row_major_Suc:
  "cells_row_major w (Suc h) = cells_row_major w h @ map (\<lambda>x. (x, h)) [0..<w]"
  by (simp add: cells_row_major_def)

lemma cells_row_major_distinct: "distinct (cells_row_major w h)"
proof (induction h)
  case 0
  show ?case by (simp add: cells_row_major_def)
next
  case (Suc h)
  have "distinct (map (\<lambda>x. (x, h)) [0..<w])"
    by (simp add: distinct_map inj_on_def)
  with Suc show ?case
    by (auto simp: cells_row_major_Suc cells_row_major_set)
qed

lemma cells_row_major_length: "length (cells_row_major w h) = w * h"
  by (simp add: cells_row_major_def length_concat comp_def sum_list_triv)

lemma cells_values:
  assumes "wf_band w h b"
  shows "map (\<lambda>(x, y). band_array b ! y ! x) (cells_row_major w h) = concat (band_array b)"
proof -
  have len: "length (band_array b) = h"
    and rows: "\<And>y. y < h \<Longrightarrow> length (band_array b ! y) = w"
    using assms by (auto simp: wf_band_def list_all_iff)
  have "map (\<lambda>y. map (\<lambda>x. band_array b ! y ! x) [0..<w]) [0..<h] = band_array b"
    by (rule nth_equalityI) (auto simp: len rows intro: nth_equalityI)
  then have "concat (map (\<lambda>y. map (\<lambda>x. band_array b ! y ! x) [0..<w]) [0..<h]) =
      concat (band_array b)"
    by simp
  then show ?thesis
    by (simp add: cells_row_major_def map_concat comp_def)
qed

text \<open>
  When the nodata value is not NaN, the sampler takes for valid exactly the cells whose
  value is not the nodata value.
\<close>

lemma valid_cell_not_sentinel:
  assumes "NoDataValue b \<noteq> Some NaN"
  shows "valid_cell b = not_sentinel b"
proof -
  have "py_ne v (NoDataValue b) \<longleftrightarrow> Some v \<noteq> NoDataValue b" for v
    using assms by (cases "NoDataValue b") (auto simp: py_ne_def py_eq_iff)
  then show ?thesis
    by (simp add: valid_cell_def not_sentinel_def)
qed

lemma point_cloud_spec:
  "NoDataValue b \<noteq> Some NaN \<Longrightarrow> point_cloud ds b = spec_point_cloud ds b"
  by (simp add: point_cloud_def spec_point_cloud_def valid_cell_not_sentinel)

lemma spec_point_cloud_length:
  assumes "wf_band (RasterXSize ds) (RasterYSize ds) b"
  shows "length (spec_point_cloud ds b) = valid_count b"
proof -
  have "not_sentinel b = (\<lambda>v. Some v \<noteq> NoDataValue b) \<circ> (\<lambda>(x, y). band_array b ! y ! x)"
    by (auto simp: not_sentinel_def fun_eq_iff)
  then have "length (filter (not_sentinel b) (cells_row_major (RasterXSize ds) (RasterYSize ds))) =
      length (filter (\<lambda>v. Some v \<noteq> NoDataValue b)
        (map (\<lambda>(x, y). band_array b ! y ! x) (cells_row_major (RasterXSize ds) (RasterYSize ds))))"
    by (simp only: filter_map length_map)
  then show ?thesis
    by (simp add: spec_point_cloud_def valid_count_def cells_values [OF assms])
qed

lemma upt_2: "[0..<2] = [0, Suc 0]"
  by (simp add: numeral_2_eq_2)

text \<open>
  On a clipped raster whose nodata value is not NaN the sampler follows the specification:
  its table is the point cloud of the specification, with as many records as there are
  cells whose value is not the nodata value.
\<close>

lemma raster_to_points_follows_spec:
  assumes "file_at (Present d) tmp_clip = Some (Raster ds)"
    and "wf_dataset ds"
    and "bands ds = b # bs"
    and "NoDataValue b \<noteq> Some NaN"
    and "writable d tmp_points"
  shows "fst (raster_to_points clipped_dem_data (Present d)) =
           Inr (CSV ''X,Y,Z'' (spec_point_cloud ds b)) \<and>
         length (spec_point_cloud ds b) = valid_count b"
proof -
  have "wf_band (RasterXSize ds) (RasterYSize ds) b"
    using assms(2,3) by (simp add: wf_dataset_def)
  then have "length (spec_point_cloud ds b) = valid_count b"
    by (rule spec_point_cloud_length)
  moreover have "fst (raster_to_points clipped_dem_data (Present d)) =
      Inr (CSV ''X,Y,Z'' (spec_point_cloud ds b))"
    using raster_to_points_run [OF assms(1,3,5)] point_cloud_spec [OF assms(4)] by simp
  ultimately show ?thesis
    by simp
qed

text \<open>
  C2, at a clipped raster whose nodata value is NaN and whose second cell holds NaN. The
  claim asks for one record for each cell whose value is not the nodata value: one record,
  for the first cell. The sampler writes two: \<^verbatim>\<open>value != nodata\<close> holds of every value when
  \<^verbatim>\<open>nodata\<close> is NaN, so the nodata cell is written as a point.
\<close>

theorem raster_to_points_nan_sentinel:
  "fst (raster_to_points (Raster nan_dem) (Present [(tmp_clip, File (Raster nan_dem))])) =
     Inr (CSV ''X,Y,Z'' [(100, 200, Num 5), (110, 200, NaN)]) \<and>
   spec_point_cloud nan_dem nan_band = [(100, 200, Num 5)] \<and>
   valid_count nan_band = 1"
proof -
  have h1: "file_at (Present [(tmp_clip, File (Raster nan_dem))]) tmp_clip =
      Some (Raster nan_dem)"
    by (simp add: file_at_def)
  have h3: "bands nan_dem = nan_band # []"
    by (simp add: nan_dem_def)
  have h4: "writable [(tmp_clip, File (Raster nan_dem))] tmp_points"
    by (simp add: writable_def tmp_clip_def tmp_points_def)
  have cells: "cells_row_major (RasterXSize nan_dem) (RasterYSize nan_dem) = [(0, 0), (1, 0)]"
    by (simp add: cells_row_major_def nan_dem_def upt_2)
  have cloud: "point_cloud nan_dem nan_band = [(100, 200, Num 5), (110, 200, NaN)]"
    unfolding point_cloud_def cells
    by (simp add: valid_cell_def py_ne_def world_point_def nan_dem_def nan_band_def)
  have spec: "spec_point_cloud nan_dem nan_band = [(100, 200, Num 5)]"
    unfolding spec_point_cloud_def cells
    by (simp add: not_sentinel_def world_point_def nan_dem_def nan_band_def)
  have count: "valid_count nan_band = 1"
    by (simp add: valid_count_def nan_band_def)
  from raster_to_points_run [OF h1 h3 h4, of "Raster nan_dem"] cloud spec count show ?thesis
    by simp
qed

text \<open>
  C9. A band that defines no nodata value: the comparison \<^verbatim>\<open>value != nodata\<close> holds of
  every cell, and the sampler writes one record for every cell of the raster.
\<close>

theorem raster_to_points_no_sentinel:
  assumes "file_at (Present d) tmp_clip = Some (Raster ds)"
    and "bands ds = b # bs"
    and "NoDataValue b = None"
    and "writable d tmp_points"
  shows "fst (raster_to_points clipped_dem_data (Present d)) =
           Inr (CSV ''X,Y,Z''
             (map (world_point (GeoTransform ds) b)
                (cells_row_major (RasterXSize ds) (RasterYSize ds)))) \<and>
         length (map (world_point (GeoTransform ds) b)
                   (cells_row_major (RasterXSize ds) (RasterYSize ds))) =
           RasterXSize ds * RasterYSize ds"
proof -
  have "valid_cell b = (\<lambda>c. True)"
    using assms(3) by (simp add: valid_cell_def py_ne_def fun_eq_iff)
  then have "point_cloud ds b =
      map (world_point (GeoTransform ds) b) (cells_row_major (RasterXSize ds) (RasterYSize ds))"
    by (simp add: point_cloud_def)
  with raster_to_points_run [OF assms(1,2,4), of clipped_dem_data] show ?thesis
    by (simp add: cells_row_major_length)
qed

theorem raster_to_points_no_sentinel_witness:
  "file_at (Present [(tmp_clip, File (Raster plain_dem))]) tmp_clip = Some (Raster plain_dem) \<and>
   bands plain_dem = plain_band # [] \<and> NoDataValue plain_band = None \<and>
   writable [(tmp_clip, File (Raster plain_dem))] tmp_points \<and>
   fst (raster_to_points (Raster plain_dem) (Present [(tmp_clip, File (Raster plain_dem))])) =
     Inr (CSV ''X,Y,Z'' [(100, 200, Num 5), (110, 200, Num 6)])"
proof -
  have h1: "file_at (Present [(tmp_clip, File (Raster plain_dem))]) tmp_clip =
      Some (Raster plain_dem)"
    by (simp add: file_at_def)
  have h2: "bands plain_dem = plain_band # []"
    by (simp add: plain_dem_def)
  have h3: "NoDataValue plain_band = None"
    by (simp add: plain_band_def)
  have h4: "writable [(tmp_clip, File (Raster plain_dem))] tmp_points"
    by (simp add: writable_def tmp_clip_def tmp_points_def)
  have cells: "cells_row_major (RasterXSize plain_dem) (RasterYSize plain_dem) = [(0, 0), (1, 0)]"
    by (simp add: cells_row_major_def plain_dem_def upt_2)
  have "fst (raster_to_points (Raster plain_dem)
               (Present [(tmp_clip, File (Raster plain_dem))])) =
          Inr (CSV ''X,Y,Z''
            (map (world_point (GeoTransform plain_dem) plain_band) [(0, 0), (1, 0)]))"
    using raster_to_points_no_sentinel [OF h1 h2 h3 h4, of "Raster plain_dem"]
    by (simp only: cells)
  then have "fst (raster_to_points (Raster plain_dem)
               (Present [(tmp_clip, File (Raster plain_dem))])) =
          Inr (CSV ''X,Y,Z'' [(100, 200, Num 5), (110, 200, Num 6)])"
    by (simp add: world_point_def plain_dem_def plain_band_def)
  with h1 h2 h3 h4 show ?thesis
    by (simp only: simp_thms)
qed

section \<open>The contour stage\<close>

lemma contour_names_distinct:
  "tmp_contours_shp \<noteq> tmp_contours_shx" "tmp_contours_shp \<noteq> tmp_contours_dbf"
  "tmp_contours_shp \<noteq> tmp_contours_prj" "tmp_contours_shx \<noteq> tmp_contours_dbf"
  "tmp_contours_shx \<noteq> tmp_contours_prj" "tmp_contours_dbf \<noteq> tmp_contours_prj"
  "tmp_feet \<noteq> tmp_contours_shp" "tmp_feet \<noteq> tmp_contours_shx"
  "tmp_feet \<noteq> tmp_contours_dbf" "tmp_feet \<noteq> tmp_contours_prj"
  by (simp_all add: tmp_contours_shp_def tmp_contours_shx_def tmp_contours_dbf_def
      tmp_contours_prj_def tmp_feet_def)

lemma writable_update: "writable (AList.update p (File c) d) q \<longleftrightarrow> q = p \<or> writable d q"
  by (auto simp: writable_def update_conv')

lemma tool_write_writable:
  "writable d p \<Longrightarrow> tool_write p c (Present d) = Present (AList.update p (File c) d)"
  by (simp add: writable_def tool_write_ok)

lemma io_bind_shapefile_write:
  assumes "writable d tmp_contours_shp" "writable d tmp_contours_shx"
    "writable d tmp_contours_dbf" "writable d tmp_contours_prj"
  shows "io_bind (shapefile_write NewFileSet l) f (Present d) =
           f () (Present (shapefile_files l d))"
  using assms
  by (simp add: shapefile_write_def io_bind_def driver_write_def tool_write_writable
      writable_update shapefile_files_def)

lemma io_bind_CreateDataSource:
  "io_bind (CreateDataSource p) f (Present d) =
     f (case map_of d p of
          None \<Rightarrow> Some NewFileSet
        | Some Dir \<Rightarrow> Some InDirectory
        | Some (File c) \<Rightarrow> None) (Present d)"
  by (simp add: io_bind_def CreateDataSource_def)

lemma writable_shapefile_files:
  "writable d q \<Longrightarrow> writable (shapefile_files l d) q"
  by (simp add: shapefile_files_def writable_update)

lemma map_of_shapefile_files_shp:
  "map_of (shapefile_files l d) tmp_contours_shp = Some (File (Shapefile l))"
  by (simp add: shapefile_files_def update_conv' contour_names_distinct)

lemma generate_contours_run:
  assumes feet: "file_at (Present d) tmp_feet = Some (Raster ds)"
    and b: "bands ds = b # bs"
    and nd: "NoDataValue b = Some nd"
    and new: "map_of d tmp_contours_shp = None"
    and w: "writable d tmp_contours_shx" "writable d tmp_contours_dbf"
      "writable d tmp_contours_prj"
  shows "generate_contours ext clipped_dem_feet_data interval_arg (Present d) =
           (let interval = (case interval_arg of None \<Rightarrow> 1 | Some i \<Rightarrow> i);
                proj = Projection ds;
                traced = (contour_layer proj)
                  \<lparr>features := ContourGenerate ext (contour_call_of b interval nd proj)\<rparr>
            in (Inr (Shapefile traced),
                Present (shapefile_files traced
                  (shapefile_files (contour_layer proj)
                    (shapefile_files (CreateLayer ''contour'' proj wkbLineString25D) d)))))"
proof -
  have shp: "writable d tmp_contours_shp"
    using new by (simp add: writable_def)
  have feet': "file_at (Present (shapefile_files l d)) tmp_feet = Some (Raster ds)" for l
    using feet by (simp add: shapefile_files_def file_at_update contour_names_distinct)
  have fields: "CreateField (''elev'', OFTReal)
      (CreateField (''ID'', OFTInteger) (CreateLayer ''contour'' proj wkbLineString25D)) =
      contour_layer proj" for proj
    by (simp add: CreateField_def CreateLayer_def contour_layer_def)
  show ?thesis
    unfolding generate_contours_def Let_def fields
    by (simp add: io_steps feet b nd GetRasterBand_def io_bind_CreateDataSource new
        io_bind_shapefile_write shp w writable_shapefile_files open_read_def
        map_of_shapefile_files_shp contour_call_of_def contour_layer_def)
qed


text \<open>
  When a regular file \<^verbatim>\<open>tmp_contours.shp\<close> is in the directory already, the driver gives
  no data source and the stage raises.
\<close>

lemma generate_contours_existing_shapefile:
  assumes feet: "file_at (Present d) tmp_feet = Some (Raster ds)"
    and b: "bands ds = b # bs"
    and old: "map_of d tmp_contours_shp = Some (File c)"
  shows "generate_contours ext clipped_dem_feet_data interval_arg (Present d) =
           (Inl AttributeError, Present d)"
  unfolding generate_contours_def Let_def
  by (simp add: io_steps feet b GetRasterBand_def io_bind_CreateDataSource old)

section \<open>The orchestrator\<close>

lemma io_bind_InrE:
  assumes "io_bind m f s = (Inr b, s'')"
  obtains a s' where "m s = (Inr a, s')" and "f a s' = (Inr b, s'')"
  using assms by (auto simp: io_bind_def split: prod.splits sum.splits)

lemma io_return_Inr: "io_return a s = (Inr b, s') \<longleftrightarrow> b = a \<and> s' = s"
  by (auto simp: io_return_def)

lemma rmdir_Inr: "rmdir s = (Inr u, s') \<Longrightarrow> s' = Absent"
  by (auto simp: rmdir_def split: scratch.splits if_splits)

lemma upload_stages:
  assumes "upload ext req s = (Inr bundle, s')"
  obtains s1 s2 s3 s4 s5 s6 c f shp dxf csv where
    "clip_raster ext (dem_filename req) (kml_filename req) s1 = (Inr c, s2)"
    "transform_to_feet c s2 = (Inr f, s3)"
    "generate_contours ext f None s3 = (Inr shp, s4)"
    "convert_shapefile_to_dxf ext shp s4 = (Inr dxf, s5)"
    "raster_to_points c s5 = (Inr csv, s6)"
    "bundle = [(''clipped_dem.tif'', c), (''clipped_dem_feet.tif'', f),
            (''contours-shape-file.shp'', shp), (''contours.dxf'', dxf),
            (''pvsyst_shading_file.csv'', csv)]"
    "s' = Absent"
  using assms unfolding upload_def Let_def
  by (elim io_bind_InrE) (auto simp: io_return_Inr dest: rmdir_Inr)

lemma upload_chain:
  assumes "create_temp_dir s = (Inr (), s0)"
    and "open_write (dem_filename req) (dem_file req) s0 = (Inr (), s1)"
    and "open_write (kml_filename req) (kml_file req) s1 = (Inr (), s2)"
    and "clip_raster ext (dem_filename req) (kml_filename req) s2 = (Inr c, s3)"
    and "transform_to_feet c s3 = (Inr f, s4)"
    and "generate_contours ext f None s4 = (Inr shp, s5)"
    and "convert_shapefile_to_dxf ext shp s5 = (Inr dxf, s6)"
    and "raster_to_points c s6 = (Inr csv, s7)"
    and "remove_files s7 = (Inr (), s8)"
    and "rmdir s8 = (Inr (), s9)"
  shows "upload ext req s =
           (Inr [(''clipped_dem.tif'', c), (''clipped_dem_feet.tif'', f),
                 (''contours-shape-file.shp'', shp), (''contours.dxf'', dxf),
                 (''pvsyst_shading_file.csv'', csv)], s9)"
  unfolding upload_def Let_def
  by (simp add: io_bind_def assms io_return_def)

lemma upload_clip_raises:
  assumes "create_temp_dir s = (Inr (), s0)"
    and "open_write (dem_filename req) (dem_file req) s0 = (Inr (), s1)"
    and "open_write (kml_filename req) (kml_file req) s1 = (Inr (), s2)"
    and "clip_raster ext (dem_filename req) (kml_filename req) s2 = (Inl e, s3)"
  shows "upload ext req s = (Inl e, s3)"
  unfolding upload_def Let_def
  by (simp add: io_bind_def assms)

lemma no_dirs_writable: "no_dirs d \<Longrightarrow> writable d p"
  by (induction d) (auto simp: no_dirs_def writable_def)

lemma no_dirs_update: "no_dirs d \<Longrightarrow> no_dirs (AList.update p (File c) d)"
  by (induction d) (auto simp: no_dirs_def)

lemma no_dirs_shapefile_files: "no_dirs d \<Longrightarrow> no_dirs (shapefile_files l d)"
  by (simp add: shapefile_files_def no_dirs_update)

lemma remove_files_no_dirs: "no_dirs d \<Longrightarrow> remove_files (Present d) = (Inr (), Present [])"
  by (induction d) (auto simp: no_dirs_def remove_files_def)

lemma rmdir_empty: "rmdir (Present []) = (Inr (), Absent)"
  by (simp add: rmdir_def)

lemma clip_raster_Present:
  "clip_raster ext dem_path kml_path (Present d) =
     open_read tmp_clip
       (case gdalwarp ext (file_at (Present d) dem_path) (file_at (Present d) kml_path)
               (file_at (Present d) tmp_clip) of
          None \<Rightarrow> Present d
        | Some c \<Rightarrow> tool_write tmp_clip c (Present d))"
  by (simp add: clip_raster_def io_bind_def create_temp_dir_def subprocess_run_def)

lemma convert_shapefile_to_dxf_run:
  "convert_shapefile_to_dxf ext shapefile_data s =
     open_read tmp_contours_dxf
       (case ogr2ogr ext ''DXF'' ''elev'' (file_at s tmp_contours_shp) (file_at s tmp_contours_dxf) of
          None \<Rightarrow> s
        | Some c \<Rightarrow> tool_write tmp_contours_dxf c s)"
  by (simp add: convert_shapefile_to_dxf_def io_bind_def subprocess_run_def)

lemma other_names_distinct:
  "tmp_clip \<noteq> tmp_contours_shp" "tmp_clip \<noteq> tmp_contours_shx" "tmp_clip \<noteq> tmp_contours_dbf"
  "tmp_clip \<noteq> tmp_contours_prj" "tmp_clip \<noteq> tmp_contours_dxf" "tmp_clip \<noteq> tmp_points"
  "tmp_contours_dxf \<noteq> tmp_contours_shp" "tmp_contours_dxf \<noteq> tmp_contours_shx"
  "tmp_contours_dxf \<noteq> tmp_contours_dbf" "tmp_contours_dxf \<noteq> tmp_contours_prj"
  "tmp_contours_dxf \<noteq> tmp_feet"
  by (simp_all add: tmp_clip_def tmp_contours_shp_def tmp_contours_shx_def tmp_contours_dbf_def
      tmp_contours_prj_def tmp_contours_dxf_def tmp_points_def tmp_feet_def)

lemma file_at_shapefile_files:
  "q \<noteq> tmp_contours_shp \<Longrightarrow> q \<noteq> tmp_contours_shx \<Longrightarrow> q \<noteq> tmp_contours_dbf \<Longrightarrow>
   q \<noteq> tmp_contours_prj \<Longrightarrow>
   file_at (Present (shapefile_files l d)) q = file_at (Present d) q"
  by (simp add: shapefile_files_def file_at_update)

lemma file_at_shapefile_files_shp:
  "file_at (Present (shapefile_files l d)) tmp_contours_shp = Some (Shapefile l)"
  by (simp add: file_at_def map_of_shapefile_files_shp)

text \<open>
  The four stages after the clip and the clean-up, on a directory without subdirectories
  that holds a well-formed clipped raster with a nodata value, when \<^verbatim>\<open>ogr2ogr\<close> writes its
  output.
\<close>

lemma after_clip_run:
  assumes wf: "wf_dataset ds"
    and b: "bands ds = b # bs"
    and nd: "NoDataValue b = Some nd"
    and nodirs: "no_dirs d"
    and fresh: "map_of d tmp_contours_shp = None"
    and fb: "bands (spec_converted ds b nd) = fb # []"
    and traced: "traced = (contour_layer (Projection ds))
        \<lparr>features := ContourGenerate ext (contour_call_of fb 1 nd (Projection ds))\<rparr>"
    and dxf: "ogr2ogr ext ''DXF'' ''elev'' (Some (Shapefile traced))
        (file_at (Present d) tmp_contours_dxf) = Some dxf"
  shows "\<exists>s4 s5 s6 s7.
           transform_to_feet (Raster ds) (Present d) = (Inr (Raster (spec_converted ds b nd)), s4) \<and>
           generate_contours ext (Raster (spec_converted ds b nd)) None s4 =
             (Inr (Shapefile traced), s5) \<and>
           convert_shapefile_to_dxf ext (Shapefile traced) s5 = (Inr dxf, s6) \<and>
           raster_to_points (Raster ds) s6 = (Inr (CSV ''X,Y,Z'' (point_cloud ds b)), s7) \<and>
           remove_files s7 = (Inr (), Present []) \<and>
           rmdir (Present []) = (Inr (), Absent)"
proof -
  let ?feet = "spec_converted ds b nd"
  let ?d4 = "AList.update tmp_feet (File (Raster ?feet)) (AList.update tmp_clip (File (Raster ds)) d)"
  let ?d5 = "shapefile_files traced
     (shapefile_files (contour_layer (Projection ds))
       (shapefile_files (CreateLayer ''contour'' (Projection ds) wkbLineString25D) ?d4))"
  let ?d6 = "AList.update tmp_contours_dxf (File dxf) ?d5"
  let ?d7 = "AList.update tmp_points (File (CSV ''X,Y,Z'' (point_cloud ds b))) ?d6"
  have nd4: "no_dirs ?d4" using nodirs by (simp add: no_dirs_update)
  have nd5: "no_dirs ?d5" using nd4 by (simp add: no_dirs_shapefile_files)
  have nd6: "no_dirs ?d6" using nd5 by (rule no_dirs_update)
  have nd7: "no_dirs ?d7" using nd6 by (rule no_dirs_update)
  have t: "transform_to_feet (Raster ds) (Present d) = (Inr (Raster ?feet), Present ?d4)"
    by (rule transform_to_feet_run [OF wf b nd no_dirs_writable [OF nodirs]
          no_dirs_writable [OF nodirs]])
  have feet4: "file_at (Present ?d4) tmp_feet = Some (Raster ?feet)"
    by (simp add: file_at_update)
  have fresh4: "map_of ?d4 tmp_contours_shp = None"
    using fresh
    by (simp add: update_conv' contour_names_distinct [symmetric]
        other_names_distinct [symmetric])
  have fbnd: "NoDataValue fb = Some nd"
    using fb by (auto simp: spec_converted_def)
  have proj: "Projection ?feet = Projection ds"
    by (simp add: spec_converted_def)
  have g: "generate_contours ext (Raster ?feet) None (Present ?d4) =
      (Inr (Shapefile traced), Present ?d5)"
    using generate_contours_run [OF feet4 fb fbnd fresh4 no_dirs_writable [OF nd4]
        no_dirs_writable [OF nd4] no_dirs_writable [OF nd4],
        of ext "Raster ?feet" None]
    by (simp add: Let_def proj traced)
  have dxf5: "file_at (Present ?d5) tmp_contours_dxf = file_at (Present d) tmp_contours_dxf"
    by (simp add: file_at_shapefile_files other_names_distinct other_names_distinct [symmetric]
        file_at_update)
  have c: "convert_shapefile_to_dxf ext (Shapefile traced) (Present ?d5) =
      (Inr dxf, Present ?d6)"
    by (simp add: convert_shapefile_to_dxf_run file_at_shapefile_files_shp dxf5 dxf
        tool_write_writable no_dirs_writable [OF nd5] open_read_update)
  have clip6: "file_at (Present ?d6) tmp_clip = Some (Raster ds)"
    by (simp add: file_at_update file_at_shapefile_files other_names_distinct
        other_names_distinct [symmetric] tmp_names_distinct)
  have p: "raster_to_points (Raster ds) (Present ?d6) =
      (Inr (CSV ''X,Y,Z'' (point_cloud ds b)), Present ?d7)"
    by (rule raster_to_points_run [OF clip6 b no_dirs_writable [OF nd6]])
  have r: "remove_files (Present ?d7) = (Inr (), Present [])"
    by (rule remove_files_no_dirs [OF nd7])
  from t g c p r rmdir_empty show ?thesis
    by blast
qed

lemma tool_write_cases:
  "tool_write p c s = s \<or> (\<exists>d. s = Present d \<and> tool_write p c s = Present (AList.update p (File c) d))"
  by (auto simp: tool_write_def split: scratch.splits option.splits entry.splits)

lemma file_at_tool_write: "q \<noteq> p \<Longrightarrow> file_at (tool_write p c s) q = file_at s q"
  using tool_write_cases [of p c s] by (auto simp: file_at_update)

lemma open_write_InrD:
  "open_write p c s = (Inr u, s') \<Longrightarrow>
     \<exists>d. s = Present d \<and> writable d p \<and> s' = Present (AList.update p (File c) d)"
  by (auto simp: open_write_def writable_def split: scratch.splits option.splits entry.splits)

lemma open_write_Inr:
  "open_write p c s = (Inr u, s') \<Longrightarrow>
     file_at s' p = Some c \<and> (\<forall>q. q \<noteq> p \<longrightarrow> file_at s' q = file_at s q)"
  by (auto dest!: open_write_InrD simp: file_at_update)

lemma open_read_Inr: "open_read p s = (Inr c, s') \<Longrightarrow> s' = s \<and> file_at s p = Some c"
  by (auto simp: open_read_def file_at_def split: scratch.splits option.splits entry.splits)

lemma gdal_Open_Inr:
  "gdal_Open p s = (Inr r, s') \<longleftrightarrow>
     s' = s \<and> r = (case file_at s p of Some (Raster ds) \<Rightarrow> Some ds | _ \<Rightarrow> None)"
  by (auto simp: gdal_Open_def)

lemma deref_Inr: "deref obj s = (Inr x, s') \<longleftrightarrow> obj = Some x \<and> s' = s"
  by (auto simp: deref_def io_return_def io_raise_def split: option.splits)

lemma ma_min_Inr: "ma_min m s = (Inr r, s') \<Longrightarrow> s' = s"
  by (auto simp: ma_min_def io_return_def io_raise_def split: if_splits)

lemma ma_max_Inr: "ma_max m s = (Inr r, s') \<Longrightarrow> s' = s"
  by (auto simp: ma_max_def io_return_def io_raise_def split: if_splits)

lemma driver_write_Inr: "driver_write p c s = (Inr u, s') \<longleftrightarrow> s' = tool_write p c s"
  by (auto simp: driver_write_def)

lemma driver_Create_Inr:
  "driver_Create p xsize ysize nbands t s = (Inr r, s') \<Longrightarrow>
     \<forall>q. q \<noteq> p \<longrightarrow> file_at s' q = file_at s q"
  by (auto simp: driver_Create_def io_return_def io_bind_def driver_write_def Let_def
      file_at_tool_write split: if_splits)

lemma on_raise_Inr: "on_raise close m s = (Inr a, s') \<longleftrightarrow> m s = (Inr a, s')"
  by (auto simp: on_raise_def split: prod.splits sum.splits)

lemma SetNoDataValue_Inr: "SetNoDataValue v b s = (Inr b', s') \<Longrightarrow> s' = s"
  by (auto simp: SetNoDataValue_def io_return_def io_raise_def split: option.splits)

lemma subprocess_run_Inr:
  "subprocess_run dst tool s = (Inr u, s') \<Longrightarrow> \<forall>q. q \<noteq> dst \<longrightarrow> file_at s' q = file_at s q"
  by (auto simp: subprocess_run_def file_at_tool_write split: option.splits)

lemma CreateDataSource_Inr: "CreateDataSource p s = (Inr r, s') \<Longrightarrow> s' = s"
  by (simp add: CreateDataSource_def)

lemma shapefile_write_Inr:
  "shapefile_write contour_ds l s = (Inr u, s') \<Longrightarrow>
     file_at s' tmp_clip = file_at s tmp_clip"
proof (cases contour_ds)
  case NewFileSet
  assume "shapefile_write contour_ds l s = (Inr u, s')"
  then show ?thesis
    unfolding shapefile_write_def NewFileSet datasource.case
    by (elim io_bind_InrE)
       (simp add: driver_write_Inr file_at_tool_write other_names_distinct)
next
  case InDirectory
  assume "shapefile_write contour_ds l s = (Inr u, s')"
  then show ?thesis
    by (simp add: shapefile_write_def InDirectory io_return_def)
qed

lemma transform_to_feet_Inr:
  assumes "transform_to_feet c s = (Inr f, s')"
  shows "\<exists>ds. c = Raster ds \<and> file_at s' tmp_clip = Some (Raster ds)"
  using assms unfolding transform_to_feet_def Let_def
  apply (elim io_bind_InrE)
  apply (simp add: gdal_Open_Inr deref_Inr driver_write_Inr on_raise_Inr)
  apply (auto dest!: open_write_Inr open_read_Inr ma_min_Inr ma_max_Inr driver_Create_Inr
      SetNoDataValue_Inr simp: file_at_tool_write tmp_names_distinct split: option.splits content.splits)
  done

lemma generate_contours_Inr:
  assumes "generate_contours ext data interval_arg s = (Inr shp, s')"
  shows "file_at s' tmp_clip = file_at s tmp_clip"
  using assms unfolding generate_contours_def Let_def
  apply (elim io_bind_InrE)
  apply (auto elim!: io_bind_InrE dest!: shapefile_write_Inr open_read_Inr CreateDataSource_Inr
      simp: gdal_Open_Inr deref_Inr io_raise_def split: option.splits)
  done

lemma convert_shapefile_to_dxf_Inr:
  assumes "convert_shapefile_to_dxf ext data s = (Inr dxf, s')"
  shows "file_at s' tmp_clip = file_at s tmp_clip"
  using assms unfolding convert_shapefile_to_dxf_def
  by (elim io_bind_InrE)
     (auto dest!: subprocess_run_Inr open_read_Inr simp: other_names_distinct)

lemma raster_to_points_Inr:
  assumes "raster_to_points data s = (Inr csv, s')"
    and "file_at s tmp_clip = Some (Raster ds)"
  shows "\<exists>b. GetRasterBand ds 1 = Some b \<and> csv = CSV ''X,Y,Z'' (point_cloud ds b)"
  using assms unfolding raster_to_points_def Let_def
  apply (elim io_bind_InrE)
  apply (auto dest!: open_write_Inr open_read_Inr
      simp: gdal_Open_Inr deref_Inr sample_rows_cloud other_names_distinct)
  done

text \<open>
  What a run that returns has done: the point table is sampled from the raster that the
  clip stage returned.
\<close>

lemma upload_samples_clipped:
  assumes "upload ext req s = (Inr bundle, s')"
  shows "\<exists>ds b f shp dxf.
           GetRasterBand ds 1 = Some b \<and>
           bundle = [(''clipped_dem.tif'', Raster ds), (''clipped_dem_feet.tif'', f),
                     (''contours-shape-file.shp'', shp), (''contours.dxf'', dxf),
                     (''pvsyst_shading_file.csv'', CSV ''X,Y,Z'' (point_cloud ds b))]"
proof -
  from assms obtain s2 s3 s4 s5 s6 c f shp dxf csv where
    t: "transform_to_feet c s2 = (Inr f, s3)"
    and g: "generate_contours ext f None s3 = (Inr shp, s4)"
    and x: "convert_shapefile_to_dxf ext shp s4 = (Inr dxf, s5)"
    and p: "raster_to_points c s5 = (Inr csv, s6)"
    and bun: "bundle = [(''clipped_dem.tif'', c), (''clipped_dem_feet.tif'', f),
            (''contours-shape-file.shp'', shp), (''contours.dxf'', dxf),
            (''pvsyst_shading_file.csv'', csv)]"
    by (elim upload_stages) blast
  from transform_to_feet_Inr [OF t] obtain ds
    where c: "c = Raster ds" and clip3: "file_at s3 tmp_clip = Some (Raster ds)"
    by blast
  have "file_at s5 tmp_clip = Some (Raster ds)"
    using generate_contours_Inr [OF g] convert_shapefile_to_dxf_Inr [OF x] clip3 by simp
  from raster_to_points_Inr [OF p this] obtain b
    where "GetRasterBand ds 1 = Some b" and "csv = CSV ''X,Y,Z'' (point_cloud ds b)"
    by blast
  with bun c show ?thesis
    by blast
qed

text \<open>
  A whole run: the uploads are saved, the clip stage returns a well-formed raster with a
  nodata value into a directory without subdirectories and without an old
  \<^verbatim>\<open>tmp_contours.shp\<close>, and \<^verbatim>\<open>ogr2ogr\<close> writes its output.
\<close>

lemma upload_run:
  assumes create: "create_temp_dir s = (Inr (), s0)"
    and dem: "open_write (dem_filename req) (dem_file req) s0 = (Inr (), s1)"
    and kml: "open_write (kml_filename req) (kml_file req) s1 = (Inr (), s2)"
    and clip: "clip_raster ext (dem_filename req) (kml_filename req) s2 =
        (Inr (Raster ds), Present d)"
    and wf: "wf_dataset ds"
    and b: "bands ds = b # bs"
    and nd: "NoDataValue b = Some nd"
    and nodirs: "no_dirs d"
    and fresh: "map_of d tmp_contours_shp = None"
    and fb: "bands (spec_converted ds b nd) = fb # []"
    and traced: "traced = (contour_layer (Projection ds))
        \<lparr>features := ContourGenerate ext (contour_call_of fb 1 nd (Projection ds))\<rparr>"
    and dxf: "ogr2ogr ext ''DXF'' ''elev'' (Some (Shapefile traced))
        (file_at (Present d) tmp_contours_dxf) = Some dxf"
  shows "upload ext req s =
           (Inr [(''clipped_dem.tif'', Raster ds),
                 (''clipped_dem_feet.tif'', Raster (spec_converted ds b nd)),
                 (''contours-shape-file.shp'', Shapefile traced),
                 (''contours.dxf'', dxf),
                 (''pvsyst_shading_file.csv'', CSV ''X,Y,Z'' (point_cloud ds b))], Absent)"
proof -
  from after_clip_run [OF wf b nd nodirs fresh fb traced dxf]
  obtain s4 s5 s6 s7 where
    "transform_to_feet (Raster ds) (Present d) = (Inr (Raster (spec_converted ds b nd)), s4)"
    "generate_contours ext (Raster (spec_converted ds b nd)) None s4 =
       (Inr (Shapefile traced), s5)"
    "convert_shapefile_to_dxf ext (Shapefile traced) s5 = (Inr dxf, s6)"
    "raster_to_points (Raster ds) s6 = (Inr (CSV ''X,Y,Z'' (point_cloud ds b)), s7)"
    "remove_files s7 = (Inr (), Present [])"
    by blast
  from upload_chain [OF create dem kml clip this rmdir_empty]
  show ?thesis .
qed

section \<open>The example runs\<close>

lemma example_converted: "spec_converted example_dem example_band (Num (- 9999)) = example_feet"
  by (simp add: spec_converted_def example_dem_def example_band_def example_feet_def)

lemma example_cloud:
  "point_cloud example_dem example_band =
     [(100, 200, Num 1), (100, 190, Num 2), (110, 190, Num 3)]"
  by (simp add: point_cloud_def cells_row_major_def valid_cell_def py_ne_def world_point_def
      example_dem_def example_band_def upt_2)

lemma example_traced:
  "(contour_layer (Projection example_dem))
     \<lparr>features := ContourGenerate example_ext
        (contour_call_of (hd (bands example_feet)) 1 (Num (- 9999)) (Projection example_dem))\<rparr> =
   example_contours"
  by (simp add: contour_layer_def contour_call_of_def example_ext_def example_dem_def
      example_contours_def example_feet_def)

lemma example_ogr2ogr:
  "ogr2ogr example_ext ''DXF'' ''elev'' (Some (Shapefile l)) dst = Some (DXF l)"
  by (simp add: example_ext_def)

text \<open>
  The stages after the clip, in a directory without subdirectories where the clip stage
  has returned the example raster.
\<close>

lemma example_after_clip:
  assumes clip: "clip_raster example_ext (dem_filename req) (kml_filename req) s2 =
      (Inr (Raster example_dem), Present d)"
    and nodirs: "no_dirs d"
    and fresh: "map_of d tmp_contours_shp = None"
    and create: "create_temp_dir s = (Inr (), s0)"
    and dem: "open_write (dem_filename req) (dem_file req) s0 = (Inr (), s1)"
    and kml: "open_write (kml_filename req) (kml_file req) s1 = (Inr (), s2)"
  shows "upload example_ext req s = (Inr example_bundle, Absent)"
proof -
  have b: "bands example_dem = example_band # []"
    by (simp add: example_dem_def)
  have nd: "NoDataValue example_band = Some (Num (- 9999))"
    by (simp add: example_band_def)
  have fb: "bands (spec_converted example_dem example_band (Num (- 9999))) =
      hd (bands example_feet) # []"
    by (simp add: example_converted) (simp add: example_feet_def)
  from upload_run [OF create dem kml clip example_dem_wf b nd nodirs fresh fb
      example_traced [symmetric] example_ogr2ogr]
  show ?thesis
    by (simp only: example_converted example_cloud example_bundle_def)
qed

lemma example_run: "upload example_ext example_request Absent = (Inr example_bundle, Absent)"
proof -
  let ?d2 = "[(''dem.tif'', File (Raster example_dem)), (''site.kml'', File (Blob ''boundary''))]"
  let ?d3 = "?d2 @ [(tmp_clip, File (Raster example_dem))]"
  have create: "create_temp_dir Absent = (Inr (), Present [])"
    by (simp add: create_temp_dir_def)
  have dem: "open_write (dem_filename example_request) (dem_file example_request) (Present []) =
      (Inr (), Present [(''dem.tif'', File (Raster example_dem))])"
    by (simp add: open_write_def example_request_def)
  have kml: "open_write (kml_filename example_request) (kml_file example_request)
      (Present [(''dem.tif'', File (Raster example_dem))]) = (Inr (), Present ?d2)"
    by (simp add: open_write_def example_request_def)
  have clip: "clip_raster example_ext (dem_filename example_request)
      (kml_filename example_request) (Present ?d2) = (Inr (Raster example_dem), Present ?d3)"
    by (simp add: clip_raster_Present file_at_def example_ext_def tool_write_def open_read_def
        tmp_clip_def example_request_def)
  have nodirs: "no_dirs ?d3"
    by (simp add: no_dirs_def)
  have fresh: "map_of ?d3 tmp_contours_shp = None"
    by (simp add: tmp_clip_def tmp_contours_shp_def)
  show ?thesis
    by (rule example_after_clip [OF clip nodirs fresh create dem kml])
qed

lemma stale_run:
  "upload example_ext broken_request (Present [(tmp_clip, File (Raster example_dem))]) =
     (Inr example_bundle, Absent)"
proof -
  let ?d0 = "[(tmp_clip, File (Raster example_dem))]"
  let ?d1 = "?d0 @ [(''dem.tif'', File (Blob ''not a raster''))]"
  let ?d2 = "?d1 @ [(''site.kml'', File (Blob ''boundary''))]"
  have create: "create_temp_dir (Present ?d0) = (Inr (), Present ?d0)"
    by (simp add: create_temp_dir_def)
  have dem: "open_write (dem_filename broken_request) (dem_file broken_request) (Present ?d0) =
      (Inr (), Present ?d1)"
    by (simp add: open_write_def broken_request_def tmp_clip_def)
  have kml: "open_write (kml_filename broken_request) (kml_file broken_request) (Present ?d1) =
      (Inr (), Present ?d2)"
    by (simp add: open_write_def broken_request_def tmp_clip_def)
  have clip: "clip_raster example_ext (dem_filename broken_request)
      (kml_filename broken_request) (Present ?d2) = (Inr (Raster example_dem), Present ?d2)"
    by (simp add: clip_raster_Present file_at_def example_ext_def open_read_def tmp_clip_def
        broken_request_def)
  have nodirs: "no_dirs ?d2"
    by (simp add: no_dirs_def)
  have fresh: "map_of ?d2 tmp_contours_shp = None"
    by (simp add: tmp_clip_def tmp_contours_shp_def)
  show ?thesis
    by (rule example_after_clip [OF clip nodirs fresh create dem kml])
qed

lemma broken_run:
  "upload example_ext broken_request Absent =
     (Inl FileNotFoundError,
      Present [(''dem.tif'', File (Blob ''not a raster'')),
               (''site.kml'', File (Blob ''boundary''))])"
proof -
  let ?d2 = "[(''dem.tif'', File (Blob ''not a raster'')), (''site.kml'', File (Blob ''boundary''))]"
  have create: "create_temp_dir Absent = (Inr (), Present [])"
    by (simp add: create_temp_dir_def)
  have dem: "open_write (dem_filename broken_request) (dem_file broken_request) (Present []) =
      (Inr (), Present [(''dem.tif'', File (Blob ''not a raster''))])"
    by (simp add: open_write_def broken_request_def)
  have kml: "open_write (kml_filename broken_request) (kml_file broken_request)
      (Present [(''dem.tif'', File (Blob ''not a raster''))]) = (Inr (), Present ?d2)"
    by (simp add: open_write_def broken_request_def)
  have clip: "clip_raster example_ext (dem_filename broken_request) (kml_filename broken_request)
      (Present ?d2) = (Inl FileNotFoundError, Present ?d2)"
    by (simp add: clip_raster_Present file_at_def example_ext_def open_read_def tmp_clip_def
        broken_request_def)
  show ?thesis
    by (rule upload_clip_raises [OF create dem kml clip])
qed


section \<open>Claims about the contour stage and the orchestrator\<close>

text \<open>
  C6. Contour generation: on a converted raster whose band has the nodata value \<open>nd\<close>, in a
  directory that holds nothing at \<^verbatim>\<open>tmp_contours.shp\<close> yet (the shapefile driver gives
  no data source for a file that exists, and line 72 then raises), the stage returns the
  layer named \<^verbatim>\<open>contour\<close>, of geometry type \<^verbatim>\<open>wkbLineString25D\<close>, with
  exactly the two fields \<^verbatim>\<open>ID\<close> (integer) and \<^verbatim>\<open>elev\<close> (real), holding the features that
  the iso-line primitive traces when it is called with the band, the interval (1 when the
  argument is left out), the base 0, no fixed levels, the nodata value \<open>nd\<close> in use, and the
  field indices 0 and 1.
\<close>

theorem generate_contours_parameters:
  assumes "file_at (Present d) tmp_feet = Some (Raster ds)"
    and "bands ds = b # bs"
    and "NoDataValue b = Some nd"
    and "map_of d tmp_contours_shp = None"
    and "writable d tmp_contours_shx"
    and "writable d tmp_contours_dbf"
    and "writable d tmp_contours_prj"
  shows "fst (generate_contours ext clipped_dem_feet_data interval_arg (Present d)) =
           Inr (Shapefile
             \<lparr>layer_name = ''contour'', srs = Projection ds, geom_type = wkbLineString25D,
              field_defns = [(''ID'', OFTInteger), (''elev'', OFTReal)],
              features = ContourGenerate ext
                \<lparr>srcBand = b,
                 contourInterval = (case interval_arg of None \<Rightarrow> 1 | Some i \<Rightarrow> i),
                 contourBase = 0, fixedLevels = [], useNoData = 1, noDataValue = nd,
                 dstLayer =
                   \<lparr>layer_name = ''contour'', srs = Projection ds,
                    geom_type = wkbLineString25D,
                    field_defns = [(''ID'', OFTInteger), (''elev'', OFTReal)],
                    features = []\<rparr>,
                 idField = 0, elevField = 1\<rparr>\<rparr>)"
  using generate_contours_run [OF assms, of ext clipped_dem_feet_data interval_arg]
  by (simp add: Let_def contour_layer_def contour_call_of_def)

theorem generate_contours_parameters_witness:
  "file_at (Present [(tmp_feet, File (Raster example_feet))]) tmp_feet =
     Some (Raster example_feet) \<and>
   NoDataValue (hd (bands example_feet)) = Some (Num (- 9999)) \<and>
   map_of [(tmp_feet, File (Raster example_feet))] tmp_contours_shp = None \<and>
   writable [(tmp_feet, File (Raster example_feet))] tmp_contours_shx \<and>
   writable [(tmp_feet, File (Raster example_feet))] tmp_contours_dbf \<and>
   writable [(tmp_feet, File (Raster example_feet))] tmp_contours_prj \<and>
   fst (generate_contours example_ext (Raster example_feet) None
          (Present [(tmp_feet, File (Raster example_feet))])) =
     Inr (Shapefile example_contours)"
proof -
  let ?d = "[(tmp_feet, File (Raster example_feet))]"
  have h1: "file_at (Present ?d) tmp_feet = Some (Raster example_feet)"
    by (simp add: file_at_def)
  have h2: "bands example_feet = hd (bands example_feet) # []"
    by (simp add: example_feet_def)
  have h3: "NoDataValue (hd (bands example_feet)) = Some (Num (- 9999))"
    by (simp add: example_feet_def)
  have new: "map_of ?d tmp_contours_shp = None"
    by (simp add: tmp_feet_def tmp_contours_shp_def)
  have w: "writable ?d tmp_contours_shx" "writable ?d tmp_contours_dbf"
    "writable ?d tmp_contours_prj"
    by (simp_all add: writable_def)
  have "fst (generate_contours example_ext (Raster example_feet) None (Present ?d)) =
      Inr (Shapefile example_contours)"
    using generate_contours_parameters [OF h1 h2 h3 new w,
        of example_ext "Raster example_feet" None]
    by (simp add: example_ext_def example_contours_def example_feet_def)
  with h1 h3 new w show ?thesis
    by (simp only: simp_thms)
qed

text \<open>
  C7. The sampling branch reads the clipped raster: in every run that returns, the point
  table of the bundle is the point cloud of the clipped raster of the bundle (each record
  carries the value of its cell in that raster), although the conversion to feet has run
  before the sampler.
\<close>

theorem upload_points_from_clipped:
  assumes "upload ext req s = (Inr bundle, s')"
  shows "\<exists>ds b. map_of bundle ''clipped_dem.tif'' = Some (Raster ds) \<and>
           GetRasterBand ds 1 = Some b \<and>
           map_of bundle ''pvsyst_shading_file.csv'' =
             Some (CSV ''X,Y,Z''
               (map (world_point (GeoTransform ds) b)
                  (filter (valid_cell b) (cells_row_major (RasterXSize ds) (RasterYSize ds)))))"
proof -
  from upload_samples_clipped [OF assms] obtain ds b f shp dxf where
    "GetRasterBand ds 1 = Some b"
    "bundle = [(''clipped_dem.tif'', Raster ds), (''clipped_dem_feet.tif'', f),
               (''contours-shape-file.shp'', shp), (''contours.dxf'', dxf),
               (''pvsyst_shading_file.csv'', CSV ''X,Y,Z'' (point_cloud ds b))]"
    by blast
  then show ?thesis
    by (simp add: point_cloud_def)
qed

theorem upload_points_from_clipped_witness:
  "upload example_ext example_request Absent = (Inr example_bundle, Absent) \<and>
   map_of example_bundle ''clipped_dem.tif'' = Some (Raster example_dem) \<and>
   map_of example_bundle ''clipped_dem_feet.tif'' = Some (Raster example_feet) \<and>
   GetRasterBand example_dem 1 = Some example_band \<and>
   map_of example_bundle ''pvsyst_shading_file.csv'' =
     Some (CSV ''X,Y,Z'' [(100, 200, Num 1), (100, 190, Num 2), (110, 190, Num 3)])"
proof -
  have "\<exists>ds b. map_of example_bundle ''clipped_dem.tif'' = Some (Raster ds) \<and>
      GetRasterBand ds 1 = Some b \<and>
      map_of example_bundle ''pvsyst_shading_file.csv'' =
        Some (CSV ''X,Y,Z''
          (map (world_point (GeoTransform ds) b)
             (filter (valid_cell b) (cells_row_major (RasterXSize ds) (RasterYSize ds)))))"
    by (rule upload_points_from_clipped [OF example_run])
  moreover have "map_of example_bundle ''clipped_dem.tif'' = Some (Raster example_dem)"
    "map_of example_bundle ''clipped_dem_feet.tif'' = Some (Raster example_feet)"
    "map_of example_bundle ''pvsyst_shading_file.csv'' =
       Some (CSV ''X,Y,Z'' [(100, 200, Num 1), (100, 190, Num 2), (110, 190, Num 3)])"
    by (simp_all add: example_bundle_def)
  moreover have "GetRasterBand example_dem 1 = Some example_band"
    by (simp add: GetRasterBand_def example_dem_def)
  ultimately show ?thesis
    using example_run by (simp only: simp_thms)
qed

text \<open>
  C4, as the claim states it: after a run that fails, no file remains in the scratch
  directory. In the run below the elevation file cannot be opened, \<^verbatim>\<open>clip_raster\<close> raises,
  and the two uploaded files stay in the directory.
\<close>

theorem upload_failure_leaves_files:
  "upload example_ext broken_request Absent =
     (Inl FileNotFoundError,
      Present [(''dem.tif'', File (Blob ''not a raster'')),
               (''site.kml'', File (Blob ''boundary''))])"
  by (rule broken_run)

text \<open>
  C4, amended. After every run that returns its bundle, the scratch directory is gone, and
  with it every file of the run: the clean-up at the end of \<^verbatim>\<open>upload\<close> removes every
  regular file and then the directory.
\<close>

theorem upload_success_teardown:
  assumes "upload ext req s = (Inr bundle, s')"
  shows "s' = Absent \<and> (\<forall>p. file_at s' p = None)"
proof -
  from assms have "s' = Absent"
    by (rule upload_stages)
  then show ?thesis
    by (simp add: file_at_def)
qed

theorem upload_success_teardown_witness:
  "fst (upload example_ext broken_request (Present [(tmp_clip, File (Raster example_dem))])) =
     Inr example_bundle \<and>
   snd (upload example_ext broken_request (Present [(tmp_clip, File (Raster example_dem))])) =
     Absent"
  using upload_success_teardown [OF stale_run] stale_run
  by simp






end
